theory Spec2Isabelle
  imports Complex_Main "HOL-Library.AList"
begin

section \<open>NumPy floating-point values\<close>

text \<open>
  The arrays of \<^verbatim>\<open>openoil.py\<close> hold IEEE floating-point numbers.  A value is a finite
  number, one of the two infinities, or NaN.  Finite values are idealised as reals
  (no rounding, no overflow, one unsigned zero); what NumPy does outside the finite
  range is written out: a division by zero gives an infinity or NaN and raises
  nothing, NaN propagates through arithmetic, and every ordering test against NaN is
  false.
\<close>

datatype npfloat = Fin real | PInf | NInf | NaN

fun np_neg :: "npfloat \<Rightarrow> npfloat" where
  "np_neg (Fin a) = Fin (- a)"
| "np_neg PInf = NInf"
| "np_neg NInf = PInf"
| "np_neg NaN = NaN"

fun np_add :: "npfloat \<Rightarrow> npfloat \<Rightarrow> npfloat" where
  "np_add (Fin a) (Fin b) = Fin (a + b)"
| "np_add NaN _ = NaN"
| "np_add _ NaN = NaN"
| "np_add PInf NInf = NaN"
| "np_add NInf PInf = NaN"
| "np_add PInf _ = PInf"
| "np_add _ PInf = PInf"
| "np_add NInf _ = NInf"
| "np_add _ NInf = NInf"

definition np_sub :: "npfloat \<Rightarrow> npfloat \<Rightarrow> npfloat" where
  "np_sub a b = np_add a (np_neg b)"

fun np_mul :: "npfloat \<Rightarrow> npfloat \<Rightarrow> npfloat" where
  "np_mul (Fin a) (Fin b) = Fin (a * b)"
| "np_mul NaN _ = NaN"
| "np_mul _ NaN = NaN"
| "np_mul (Fin a) PInf = (if a = 0 then NaN else if 0 < a then PInf else NInf)"
| "np_mul (Fin a) NInf = (if a = 0 then NaN else if 0 < a then NInf else PInf)"
| "np_mul PInf (Fin b) = (if b = 0 then NaN else if 0 < b then PInf else NInf)"
| "np_mul NInf (Fin b) = (if b = 0 then NaN else if 0 < b then NInf else PInf)"
| "np_mul PInf PInf = PInf"
| "np_mul PInf NInf = NInf"
| "np_mul NInf PInf = NInf"
| "np_mul NInf NInf = PInf"

text \<open>
  Array division: \<^verbatim>\<open>a / b\<close> on NumPy arrays never raises.  A zero divisor gives NaN
  for a zero dividend and an infinity of the dividend's sign otherwise.
\<close>

fun np_div :: "npfloat \<Rightarrow> npfloat \<Rightarrow> npfloat" where
  "np_div (Fin a) (Fin b) =
     (if b = 0 then (if a = 0 then NaN else if 0 < a then PInf else NInf)
      else Fin (a / b))"
| "np_div NaN _ = NaN"
| "np_div _ NaN = NaN"
| "np_div (Fin a) PInf = Fin 0"
| "np_div (Fin a) NInf = Fin 0"
| "np_div PInf (Fin b) = (if b < 0 then NInf else PInf)"
| "np_div NInf (Fin b) = (if b < 0 then PInf else NInf)"
| "np_div PInf PInf = NaN"
| "np_div PInf NInf = NaN"
| "np_div NInf PInf = NaN"
| "np_div NInf NInf = NaN"

fun np_sqrt :: "npfloat \<Rightarrow> npfloat" where
  "np_sqrt (Fin a) = (if a < 0 then NaN else Fin (sqrt a))"
| "np_sqrt PInf = PInf"
| "np_sqrt NInf = NaN"
| "np_sqrt NaN = NaN"

fun np_exp :: "npfloat \<Rightarrow> npfloat" where
  "np_exp (Fin a) = Fin (exp a)"
| "np_exp PInf = PInf"
| "np_exp NInf = Fin 0"
| "np_exp NaN = NaN"

text \<open>The comparison \<^verbatim>\<open>a > b\<close>, elementwise: false as soon as one side is NaN.\<close>

fun np_gt :: "npfloat \<Rightarrow> npfloat \<Rightarrow> bool" where
  "np_gt (Fin a) (Fin b) = (b < a)"
| "np_gt NaN _ = False"
| "np_gt _ NaN = False"
| "np_gt PInf PInf = False"
| "np_gt PInf _ = True"
| "np_gt _ PInf = False"
| "np_gt NInf _ = False"
| "np_gt _ NInf = True"

section \<open>Errors\<close>

datatype error = UnboundLocalError | ValueError

section \<open>Linear interpolation (\<^verbatim>\<open>np.interp\<close>)\<close>

text \<open>
  \<^verbatim>\<open>np.interp(x, xp, fp)\<close> for an increasing \<open>xp\<close>: below \<open>xp[0]\<close> the result is
  \<open>fp[0]\<close>, from \<open>xp[-1]\<close> on it is \<open>fp[-1]\<close>, and for \<open>xp[j] \<le> x < xp[j+1]\<close> it is
  \<open>fp[j]\<close> when \<open>x = xp[j]\<close> and \<open>slope * (x - xp[j]) + fp[j]\<close> otherwise.
  \<open>interp_from\<close> walks to the bracket of an \<open>x\<close> that is not below \<open>xp[0]\<close>.
\<close>

fun interp_from :: "real \<Rightarrow> real list \<Rightarrow> real list \<Rightarrow> real" where
  "interp_from x (x0 # x1 # xs) (y0 # y1 # ys) =
     (if x < x1
      then (if x = x0 then y0 else ((y1 - y0) / (x1 - x0)) * (x - x0) + y0)
      else interp_from x (x1 # xs) (y1 # ys))"
| "interp_from x [x0] (y0 # ys) = y0"
| "interp_from x _ _ = 0"

fun np_interp :: "npfloat \<Rightarrow> real list \<Rightarrow> real list \<Rightarrow> npfloat" where
  "np_interp (Fin x) xp fp = Fin (if x < hd xp then hd fp else interp_from x xp fp)"
| "np_interp PInf xp fp = Fin (last fp)"
| "np_interp NInf xp fp = Fin (hd fp)"
| "np_interp NaN xp fp = NaN"

text \<open>
  The array form raises \<^verbatim>\<open>ValueError\<close> for an empty table and for tables of
  different lengths, whatever \<open>x\<close> is.
\<close>

definition interp :: "npfloat list \<Rightarrow> real list \<Rightarrow> real list \<Rightarrow> error + npfloat list" where
  "interp x xp fp =
     (if xp = [] then Inl ValueError
      else if length fp \<noteq> length xp then Inl ValueError
      else Inr (map (\<lambda>v. np_interp v xp fp) x))"

section \<open>The data model of \<^verbatim>\<open>models/openoil.py\<close>\<close>

text \<open>
  A variable of a \<^verbatim>\<open>LagrangianArray\<close> is either one scalar shared by all elements or an
  array with one entry per element; \<^verbatim>\<open>update\<close> asks \<^verbatim>\<open>np.isscalar\<close> of the depth test and
  of \<^verbatim>\<open>age_exposure_seconds\<close>, so these two keep both forms.  Everywhere else a scalar
  broadcasts and behaves as the array of its copies, and the variable is an array.
\<close>

datatype 'a nparr = Scalar 'a | Arr "'a list"

datatype status = Initial | Active | Missing_data | Stranded | Evaporated | Dispersed

record elements =
  status :: "status list"
  lon :: "real list"
  lat :: "real list"
  depth :: "real nparr"
  mass_oil :: "npfloat list"
  viscosity :: "npfloat list"
  density :: "npfloat list"
  age_seconds :: "npfloat list"
  age_exposure_seconds :: "npfloat nparr"
  age_emulsion_seconds :: "npfloat list"
  mass_emulsion :: "npfloat list"
  fraction_evaporated :: "npfloat list"
  water_content :: "npfloat list"

text \<open>
  The environment snapshot: the required variables, one value per active element.  The
  provider hands over numbers (a missing variable is replaced by its fallback value), so
  its arrays are lists of reals.
\<close>

record environment =
  x_sea_water_velocity :: "real list"
  y_sea_water_velocity :: "real list"
  sea_surface_wave_significant_height :: "real list"
  sea_surface_wave_to_direction :: "real list"
  x_wind :: "real list"
  y_wind :: "real list"
  land_binary_mask :: "real list"

text \<open>The oil properties that \<^verbatim>\<open>__init__\<close> reads from \<^verbatim>\<open>prop.dat\<close>.\<close>

record model =
  fref :: "real list"
  tref :: "real list"
  wmax :: "real list"
  reference_wind :: real
  reference_thickness :: real

text \<open>The \<^verbatim>\<open>[processes]\<close> and \<^verbatim>\<open>[drift]\<close> sections of the configuration.\<close>

record config =
  dispersion :: bool
  diffusion :: bool
  evaporation :: bool
  emulsification :: bool
  wind_drift_factor :: real
  current_uncertainty :: real
  wind_uncertainty :: real

text \<open>
  What \<^verbatim>\<open>update\<close> does to the simulation object is observed as a trace: each assignment to
  a variable of the elements or of the environment, and each call of a method of the
  parent class, in the order they happen.
\<close>

datatype event =
    Write string
  | Deactivate "bool list" status
  | UpdatePositions "real list" "real list"

record sim =
  config :: config
  model :: model
  time_step :: real
  elements :: elements
  environment :: environment
  trace :: "event list"

text \<open>
  The random source.  \<open>rand n\<close> is the array that \<^verbatim>\<open>np.random.rand(n)\<close> returns in the
  step, and \<open>normal k mu sigma n\<close> the array that \<^verbatim>\<open>np.random.normal(mu, sigma, n)\<close>
  returns at the \<open>k\<close>-th of the four places where \<open>update\<close> calls it.
\<close>

record random_source =
  rand :: "nat \<Rightarrow> real list"
  normal :: "nat \<Rightarrow> real \<Rightarrow> real \<Rightarrow> nat \<Rightarrow> real list"

section \<open>The methods of the parent class\<close>

text \<open>
  Modelled from the spec: \<^verbatim>\<open>num_elements_active\<close> of \<^verbatim>\<open>OpenDriftSimulation\<close> is not in the
  source tree.  The arrays of one step hold the elements that were active when it began,
  one entry each, so the number is the length of the status array.  A deactivation inside
  the step changes a status and leaves the arrays as they are.
\<close>

definition num_elements_active :: "sim \<Rightarrow> nat" where
  "num_elements_active s = length (status (elements s))"

text \<open>
  Modelled from the spec: \<^verbatim>\<open>deactivate_elements\<close> of \<^verbatim>\<open>OpenDriftSimulation\<close> is not in the
  source tree.  Every element where the mask holds and that is still active takes the
  reason as its status; an element that already left the active set keeps the status it
  has (the first matching reason wins, and the operation is idempotent).
\<close>

definition deactivate_elements :: "bool list \<Rightarrow> status \<Rightarrow> sim \<Rightarrow> sim" where
  "deactivate_elements indices reason s =
     s\<lparr>elements := (elements s)\<lparr>status :=
          map2 (\<lambda>b st. if b \<and> st = Active then reason else st) indices (status (elements s))\<rparr>,
       trace := trace s @ [Deactivate indices reason]\<rparr>"

text \<open>
  Modelled from the spec: \<^verbatim>\<open>update_positions\<close> of \<^verbatim>\<open>OpenDriftSimulation\<close> is not in the
  source tree.  One call advances every position by \<open>(u, v) * \<Delta>t\<close>; the coordinates are
  taken as projected ones, where that displacement is the delta itself.
\<close>

definition update_positions :: "real list \<Rightarrow> real list \<Rightarrow> sim \<Rightarrow> sim" where
  "update_positions u v s =
     s\<lparr>elements := (elements s)\<lparr>
          lon := map2 (\<lambda>x du. x + du * time_step s) (lon (elements s)) u,
          lat := map2 (\<lambda>y dv. y + dv * time_step s) (lat (elements s)) v\<rparr>,
       trace := trace s @ [UpdatePositions u v]\<rparr>"

section \<open>\<^verbatim>\<open>OpenOil.update\<close>\<close>

definition windspeed_of :: "environment \<Rightarrow> real list" where
  "windspeed_of env = map2 (\<lambda>xw yw. sqrt (xw ^ 2 + yw ^ 2)) (x_wind env) (y_wind env)"

subsection \<open>Evaporation\<close>

definition at_surface_of :: "nat \<Rightarrow> real nparr \<Rightarrow> bool list" where
  "at_surface_of n d =
     (case d of Scalar z \<Rightarrow> replicate n (z = 0) | Arr zs \<Rightarrow> map (\<lambda>z. z = 0) zs)"

text \<open>\<^verbatim>\<open>a[mask] += d[mask]\<close>\<close>

definition add_where :: "bool list \<Rightarrow> npfloat list \<Rightarrow> npfloat list \<Rightarrow> npfloat list" where
  "add_where sel a d = map2 (\<lambda>b (x, y). if b then np_add x y else x) sel (zip a d)"

text \<open>
  The local variables of the evaporation block once line 160 has run: \<open>Urel\<close>, the new
  \<open>age_exposure_seconds\<close>, the new \<open>fraction_evaporated\<close> and \<open>evaporation_probability\<close>.
  The quotient of line 157 is an array division with nothing in front of it, and the
  entries of elements below the surface are overwritten by 0 afterwards.
\<close>

definition evaporation_locals ::
  "real list \<Rightarrow> sim \<Rightarrow> error + (npfloat list \<times> npfloat list \<times> npfloat list \<times> npfloat list)" where
  "evaporation_locals windspeed s =
     (let e = elements s; m = model s;
          fraction_evaporated_previous = fraction_evaporated e;
          at_surface = at_surface_of (num_elements_active s) (depth e);
          Urel = map (\<lambda>w. np_div (Fin w) (Fin (reference_wind m))) windspeed;
          delta_exposure_seconds =
            map (\<lambda>u. np_mul (np_mul (Fin (reference_thickness m / 2)) u) (Fin (time_step s))) Urel;
          age = (case age_exposure_seconds e of
                   Scalar a \<Rightarrow> map (np_add a) delta_exposure_seconds
                 | Arr as \<Rightarrow> add_where at_surface as delta_exposure_seconds)
      in case interp age (tref m) (fref m) of
           Inl err \<Rightarrow> Inl err
         | Inr fe \<Rightarrow>
             Inr (Urel, age, fe,
                  map2 (\<lambda>surface p. if surface then p else Fin 0) at_surface
                    (map2 np_div (map2 np_sub fe fraction_evaporated_previous)
                       (map (np_sub (Fin 1)) fraction_evaporated_previous))))"

definition evaporate :: "random_source \<Rightarrow> real list \<Rightarrow> sim \<Rightarrow> error + (npfloat list \<times> sim)" where
  "evaporate rng windspeed s =
     (case evaporation_locals windspeed s of
        Inl err \<Rightarrow> Inl err
      | Inr (Urel, age, fe, evaporation_probability) \<Rightarrow>
          Inr (Urel,
               deactivate_elements
                 (map2 np_gt evaporation_probability (map Fin (rand rng (num_elements_active s))))
                 Evaporated
                 (s\<lparr>elements := (elements s)\<lparr>age_exposure_seconds := Arr age,
                                             fraction_evaporated := fe\<rparr>,
                    trace := trace s @ [Write ''age_exposure_seconds'',
                                        Write ''fraction_evaporated'']\<rparr>)))"

subsection \<open>Emulsification\<close>

text \<open>
  \<open>Urel\<close> is a local variable that only the evaporation block assigns: it is \<open>None\<close>
  here when that block did not run, and reading it then raises.
\<close>

definition emulsify :: "npfloat list option \<Rightarrow> sim \<Rightarrow> error + sim" where
  "emulsify Urel s =
     (case Urel of
        None \<Rightarrow> Inl UnboundLocalError
      | Some u \<Rightarrow>
          (let e = elements s; m = model s;
               age = map2 (\<lambda>a x. np_add a (np_mul x (Fin (time_step s))))
                       (age_emulsion_seconds e) u
           in case interp age (tref m) (wmax m) of
                Inl err \<Rightarrow> Inl err
              | Inr wc \<Rightarrow>
                  Inr (s\<lparr>elements := e\<lparr>age_emulsion_seconds := age, water_content := wc\<rparr>,
                         trace := trace s @ [Write ''age_emulsion_seconds'',
                                             Write ''water_content'']\<rparr>)))"

subsection \<open>Dispersion\<close>

definition v_entrain :: real where
  "v_entrain = 39 / 10 ^ 9"

definition sea_water_density :: real where
  "sea_water_density = 1028"

definition fraction_breaking_waves :: real where
  "fraction_breaking_waves = 2 / 100"

text \<open>The wave height after line 188: a height of exactly 0 is replaced, per element.\<close>

definition wave_significant_height :: "real list \<Rightarrow> real list \<Rightarrow> real list" where
  "wave_significant_height height windspeed =
     map2 (\<lambda>h w. if h = 0 then 0.0246 * w ^ 2 else h) height windspeed"

definition dissipation_wave_energy :: "real \<Rightarrow> real" where
  "dissipation_wave_energy h = 0.0034 * sea_water_density * 9.81 * h ^ 2"

definition c_disp :: "real \<Rightarrow> real" where
  "c_disp h = dissipation_wave_energy h powr 0.57 * fraction_breaking_waves"

definition C_Roy :: "npfloat \<Rightarrow> npfloat \<Rightarrow> npfloat" where
  "C_Roy visc dens = np_mul (Fin 2400) (np_exp (np_mul (Fin (- 73.682)) (np_sqrt (np_div visc dens))))"

definition q_disp :: "real \<Rightarrow> npfloat \<Rightarrow> npfloat \<Rightarrow> npfloat" where
  "q_disp h visc dens =
     np_div (np_mul (np_mul (C_Roy visc dens) (Fin (c_disp h))) (Fin v_entrain)) dens"

definition oil_mass_loss :: "real \<Rightarrow> real \<Rightarrow> npfloat \<Rightarrow> npfloat \<Rightarrow> npfloat" where
  "oil_mass_loss dt h visc dens = np_mul (np_mul (q_disp h visc dens) (Fin dt)) dens"

text \<open>
  \<open>wave_significant_height\<close> of the source is the environment's own array, not a copy:
  the masked assignment of line 188 writes into the environment.
\<close>

definition disperse :: "real list \<Rightarrow> sim \<Rightarrow> sim" where
  "disperse windspeed s =
     (let e = elements s; env = environment s;
          height = wave_significant_height (sea_surface_wave_significant_height env) windspeed;
          loss = map2 (\<lambda>h (visc, dens). oil_mass_loss (time_step s) h visc dens)
                   height (zip (viscosity e) (density e))
      in s\<lparr>elements := e\<lparr>mass_oil := map2 np_sub (mass_oil e) loss\<rparr>,
           environment := env\<lparr>sea_surface_wave_significant_height := height\<rparr>,
           trace := trace s @ [Write ''sea_surface_wave_significant_height'',
                               Write ''mass_oil'']\<rparr>)"

subsection \<open>Stranding and drift\<close>

definition strand :: "sim \<Rightarrow> sim" where
  "strand s =
     deactivate_elements (map (\<lambda>l. l = 1) (land_binary_mask (environment s))) Stranded s"

definition drift :: "sim \<Rightarrow> sim" where
  "drift s =
     (let env = environment s;
          s1 = update_positions (x_sea_water_velocity env) (y_sea_water_velocity env) s;
          wdf = wind_drift_factor (config s)
      in update_positions (map (\<lambda>x. x * wdf) (x_wind env)) (map (\<lambda>y. y * wdf) (y_wind env)) s1)"

definition current_noise :: "random_source \<Rightarrow> sim \<Rightarrow> real list \<times> real list" where
  "current_noise rng s =
     (let std_current_comp = current_uncertainty (config s) in
      if std_current_comp > 0
      then (normal rng 0 0 std_current_comp (num_elements_active s),
            normal rng 1 0 std_current_comp (num_elements_active s))
      else (map (\<lambda>x. 0 * x) (x_wind (environment s)),
            map (\<lambda>x. 0 * x) (x_wind (environment s))))"

definition wind_noise :: "random_source \<Rightarrow> sim \<Rightarrow> real list \<times> real list" where
  "wind_noise rng s =
     (let wdf = wind_drift_factor (config s);
          std_wind_comp = wind_uncertainty (config s) in
      if wdf > 0 \<and> std_wind_comp > 0
      then (normal rng 2 0 (std_wind_comp * wdf) (num_elements_active s),
            normal rng 3 0 (std_wind_comp * wdf) (num_elements_active s))
      else (map (\<lambda>x. 0 * x) (x_wind (environment s)),
            map (\<lambda>x. 0 * x) (x_wind (environment s))))"

definition diffuse :: "random_source \<Rightarrow> sim \<Rightarrow> sim" where
  "diffuse rng s =
     (let (sigma_u, sigma_v) = current_noise rng s;
          s1 = update_positions sigma_u sigma_v s;
          (sigma_u', sigma_v') = wind_noise rng s1
      in update_positions sigma_u' sigma_v' s1)"

subsection \<open>The whole step\<close>

text \<open>Line 116: every element ages by the time step.\<close>

definition advance_age :: "sim \<Rightarrow> sim" where
  "advance_age s =
     s\<lparr>elements := (elements s)\<lparr>age_seconds :=
          map (\<lambda>a. np_add a (Fin (time_step s))) (age_seconds (elements s))\<rparr>,
       trace := trace s @ [Write ''age_seconds'']\<rparr>"

text \<open>
  Lines 126 to 174: the evaporation block, which binds \<open>Urel\<close> when it runs, then the
  emulsification block, which reads it.
\<close>

definition weather :: "random_source \<Rightarrow> real list \<Rightarrow> sim \<Rightarrow> error + sim" where
  "weather rng windspeed s =
     (case (if evaporation (config s)
            then (case evaporate rng windspeed s of
                    Inl err \<Rightarrow> Inl err
                  | Inr (u, s1) \<Rightarrow> Inr (Some u, s1))
            else Inr (None, s)) of
        Inl err \<Rightarrow> Inl err
      | Inr (Urel, s1) \<Rightarrow>
          (if emulsification (config s1) then emulsify Urel s1 else Inr s1))"

text \<open>Lines 237 to 270: the drift with current and wind, then the diffusion block.\<close>

definition transport :: "random_source \<Rightarrow> sim \<Rightarrow> sim" where
  "transport rng s =
     (let s1 = drift s in if diffusion (config s1) then diffuse rng s1 else s1)"

definition update :: "random_source \<Rightarrow> sim \<Rightarrow> error + sim" where
  "update rng s =
     (let s0 = advance_age s;
          windspeed = windspeed_of (environment s0)
      in case weather rng windspeed s0 of
           Inl err \<Rightarrow> Inl err
         | Inr s2 \<Rightarrow>
             Inr (transport rng
                    (strand (if dispersion (config s2) then disperse windspeed s2 else s2))))"

subsection \<open>Reading one element\<close>

text \<open>The entry of element \<open>i\<close> in a variable: a scalar is shared by all elements.\<close>

definition element_of :: "'a nparr \<Rightarrow> nat \<Rightarrow> 'a" where
  "element_of v i = (case v of Scalar a \<Rightarrow> a | Arr xs \<Rightarrow> xs ! i)"

section \<open>Well-formed inputs\<close>

text \<open>
  The arrays of one step are aligned: every array of the elements and of the environment
  has one entry per element.
\<close>

definition aligned :: "sim \<Rightarrow> bool" where
  "aligned s =
     (let n = num_elements_active s; e = elements s; env = environment s in
      length (lon e) = n \<and> length (lat e) = n \<and>
      (case depth e of Scalar z \<Rightarrow> True | Arr zs \<Rightarrow> length zs = n) \<and>
      length (mass_oil e) = n \<and> length (viscosity e) = n \<and> length (density e) = n \<and>
      length (age_seconds e) = n \<and>
      (case age_exposure_seconds e of Scalar a \<Rightarrow> True | Arr as \<Rightarrow> length as = n) \<and>
      length (age_emulsion_seconds e) = n \<and> length (mass_emulsion e) = n \<and>
      length (fraction_evaporated e) = n \<and> length (water_content e) = n \<and>
      length (x_sea_water_velocity env) = n \<and> length (y_sea_water_velocity env) = n \<and>
      length (sea_surface_wave_significant_height env) = n \<and>
      length (sea_surface_wave_to_direction env) = n \<and>
      length (x_wind env) = n \<and> length (y_wind env) = n \<and>
      length (land_binary_mask env) = n)"

text \<open>
  The random source returns arrays of the length asked for, and \<^verbatim>\<open>rand\<close> draws from
  \<open>[0, 1)\<close>.
\<close>

definition draws_ok :: "random_source \<Rightarrow> bool" where
  "draws_ok rng =
     ((\<forall>n. length (rand rng n) = n \<and> list_all (\<lambda>r. 0 \<le> r \<and> r < 1) (rand rng n)) \<and>
      (\<forall>k mu sigma n. length (normal rng k mu sigma n) = n))"

text \<open>
  The precondition on a reference curve: a strictly increasing time axis and
  non-decreasing fractions between 0 and 1, one per time.
\<close>

definition reference_curve :: "real list \<Rightarrow> real list \<Rightarrow> bool" where
  "reference_curve xp fp \<longleftrightarrow>
     xp \<noteq> [] \<and> length fp = length xp \<and> sorted_wrt (<) xp \<and> sorted fp \<and>
     list_all (\<lambda>y. 0 \<le> y \<and> y \<le> 1) fp"

text \<open>
  A particle is on or below the curve when its exposure age and its evaporated fraction
  are numbers and the fraction lies between 0 and the value of the reference curve at
  that age.  Default seeding (age 0, fraction 0) is such a state, and so is the state
  after any evaporation step.
\<close>

fun below_curve :: "model \<Rightarrow> npfloat \<Rightarrow> npfloat \<Rightarrow> bool" where
  "below_curve m (Fin t) (Fin y) =
     (case np_interp (Fin t) (tref m) (fref m) of Fin c \<Rightarrow> 0 \<le> y \<and> y \<le> c | _ \<Rightarrow> False)"
| "below_curve m _ _ = False"

section \<open>\<^verbatim>\<open>readers/operators/numops.py\<close>: a reader combined with a number\<close>

text \<open>
  \<^verbatim>\<open>_get_variables_interpolated_\<close> of a reader returns two dictionaries, \<open>env\<close> with one
  array per variable and \<open>env_profiles\<close> with one two-dimensional array per variable.  A
  dictionary is an association list with distinct keys, in insertion order.  The wrapped
  reader is the function from the arguments of the call to the pair it returns.
\<close>

type_synonym env_dict = "(string \<times> npfloat list) list"

type_synonym profiles_dict = "(string \<times> npfloat list list) list"

datatype 'a Combined = Combined npfloat "'a \<Rightarrow> env_dict \<times> profiles_dict" "npfloat \<Rightarrow> npfloat"

definition Combined_add :: "npfloat \<Rightarrow> ('a \<Rightarrow> env_dict \<times> profiles_dict) \<Rightarrow> 'a Combined" where
  "Combined_add n r = Combined n r (\<lambda>x. np_add n x)"

definition Combined_mul :: "npfloat \<Rightarrow> ('a \<Rightarrow> env_dict \<times> profiles_dict) \<Rightarrow> 'a Combined" where
  "Combined_mul n r = Combined n r (\<lambda>x. np_mul n x)"

definition Combined_sub :: "npfloat \<Rightarrow> ('a \<Rightarrow> env_dict \<times> profiles_dict) \<Rightarrow> 'a Combined" where
  "Combined_sub n r = Combined n r (\<lambda>x. np_sub x n)"

definition Combined_div :: "npfloat \<Rightarrow> ('a \<Rightarrow> env_dict \<times> profiles_dict) \<Rightarrow> 'a Combined" where
  "Combined_div n r = Combined n r (\<lambda>x. np_div x n)"

text \<open>
  The two loops of the method: the list of variables is taken from the keys first, then
  each of them is assigned \<open>op\<close> of its own value.
\<close>

definition apply_to_variables :: "('v \<Rightarrow> 'v) \<Rightarrow> (string \<times> 'v) list \<Rightarrow> (string \<times> 'v) list" where
  "apply_to_variables f d =
     (let variables = filter (\<lambda>var. var \<notin> set [''x'', ''y'', ''time'']) (map fst d)
      in fold (\<lambda>var e. AList.map_entry var f e) variables d)"

fun get_variables_interpolated :: "'a Combined \<Rightarrow> 'a \<Rightarrow> env_dict \<times> profiles_dict" where
  "get_variables_interpolated (Combined n r op) args =
     (case r args of (env, env_profiles) \<Rightarrow>
        (apply_to_variables (map op) env, apply_to_variables (map (map op)) env_profiles))"

text \<open>A reader for the examples: one variable next to the coordinates and the time.\<close>

definition reader0 :: "unit \<Rightarrow> env_dict \<times> profiles_dict" where
  "reader0 u =
     ([(''x'', [Fin 1]), (''x_wind'', [Fin 6, Fin 0]), (''time'', [Fin 7])],
      [(''z'', [[Fin 4]]), (''y'', [[Fin 2]])])"

section \<open>A reference scenario and its variants\<close>

text \<open>
  One particle at the surface with the default oil properties, a 2 m wave height, a wind
  of (5, 0) m/s and a time step of one hour; the reference curve has two points.
\<close>

definition rng0 :: random_source where
  "rng0 = \<lparr>rand = (\<lambda>n. replicate n (1 / 2)),
           normal = (\<lambda>k mu sigma n. replicate n (mu + sigma * real (Suc k)))\<rparr>"

definition model0 :: model where
  "model0 = \<lparr>fref = [0, 1], tref = [0, 3600], wmax = [0, 4 / 5],
             reference_wind = 5, reference_thickness = 2\<rparr>"

definition config0 :: config where
  "config0 = \<lparr>dispersion = True, diffusion = True, evaporation = True, emulsification = True,
              wind_drift_factor = 2 / 100, current_uncertainty = 1 / 10, wind_uncertainty = 1\<rparr>"

definition elements0 :: elements where
  "elements0 = \<lparr>status = [Active], lon = [5], lat = [60], depth = Arr [0],
       mass_oil = [Fin 1000], viscosity = [Fin (1 / 2)], density = [Fin 800],
       age_seconds = [Fin 0], age_exposure_seconds = Arr [Fin 0],
       age_emulsion_seconds = [Fin 0], mass_emulsion = [Fin 0],
       fraction_evaporated = [Fin 0], water_content = [Fin 0]\<rparr>"

definition environment0 :: environment where
  "environment0 = \<lparr>x_sea_water_velocity = [0], y_sea_water_velocity = [0],
       sea_surface_wave_significant_height = [2], sea_surface_wave_to_direction = [0],
       x_wind = [5], y_wind = [0], land_binary_mask = [0]\<rparr>"

definition sim0 :: sim where
  "sim0 = \<lparr>config = config0, model = model0, time_step = 3600, elements = elements0,
           environment = environment0, trace = []\<rparr>"



text \<open>The reference scenario with a calm sea: the provider reports a wave height of 0.\<close>

definition sim_calm :: sim where
  "sim_calm = sim0\<lparr>environment := environment0\<lparr>sea_surface_wave_significant_height := [0]\<rparr>\<rparr>"

text \<open>
  Two particles, the second one 5 m below the surface, with \<open>age_exposure_seconds\<close> still
  the scalar default shared by all elements.
\<close>

definition sim_deep :: sim where
  "sim_deep = sim0\<lparr>
     elements := \<lparr>status = [Active, Active], lon = [5, 5], lat = [60, 60], depth = Arr [0, 5],
       mass_oil = [Fin 1000, Fin 1000], viscosity = [Fin (1 / 2), Fin (1 / 2)],
       density = [Fin 800, Fin 800], age_seconds = [Fin 0, Fin 0],
       age_exposure_seconds = Scalar (Fin 0), age_emulsion_seconds = [Fin 0, Fin 0],
       mass_emulsion = [Fin 0, Fin 0], fraction_evaporated = [Fin 0, Fin 0],
       water_content = [Fin 0, Fin 0]\<rparr>,
     environment := \<lparr>x_sea_water_velocity = [0, 0], y_sea_water_velocity = [0, 0],
       sea_surface_wave_significant_height = [2, 2], sea_surface_wave_to_direction = [0, 0],
       x_wind = [5, 5], y_wind = [0, 0], land_binary_mask = [0, 0]\<rparr>\<rparr>"

text \<open>
  The reference particle once it has fully evaporated on the curve: an exposure age at the
  end of the table and a \<open>fraction_evaporated\<close> of 1.
\<close>

definition sim_full :: sim where
  "sim_full = sim0\<lparr>elements := elements0\<lparr>age_exposure_seconds := Arr [Fin 3600],
                                          fraction_evaporated := [Fin 1]\<rparr>\<rparr>"

text \<open>The reference particle on land.\<close>

definition sim_land :: sim where
  "sim_land = sim0\<lparr>environment := environment0\<lparr>land_binary_mask := [1]\<rparr>\<rparr>"

text \<open>
  Two states for the evaporation curve: a particle seeded with half of its mass evaporated
  at exposure age 0 in still air, and a fully evaporated particle in a step that runs
  backwards in time.
\<close>

definition sim_half :: sim where
  "sim_half = sim0\<lparr>elements := elements0\<lparr>fraction_evaporated := [Fin (1 / 2)]\<rparr>,
                   environment := environment0\<lparr>x_wind := [0]\<rparr>\<rparr>"

definition sim_back :: sim where
  "sim_back = sim_full\<lparr>time_step := - 3600\<rparr>"

section \<open>What each block of the step leaves alone\<close>

lemma evaporate_Inr:
  "evaporate rng ws s = Inr (u, s1) \<Longrightarrow>
   \<exists>age fe p. evaporation_locals ws s = Inr (u, age, fe, p) \<and>
     s1 = deactivate_elements (map2 np_gt p (map Fin (rand rng (num_elements_active s)))) Evaporated
            (s\<lparr>elements := (elements s)\<lparr>age_exposure_seconds := Arr age, fraction_evaporated := fe\<rparr>,
               trace := trace s @ [Write ''age_exposure_seconds'', Write ''fraction_evaporated'']\<rparr>)"
  by (auto simp: evaporate_def split: sum.splits prod.splits)

lemma emulsify_Inr:
  "emulsify Urel s = Inr s2 \<Longrightarrow>
   \<exists>u wc. Urel = Some u \<and>
     interp (map2 (\<lambda>a x. np_add a (np_mul x (Fin (time_step s)))) (age_emulsion_seconds (elements s)) u)
        (tref (model s)) (wmax (model s)) = Inr wc \<and>
     s2 = s\<lparr>elements := (elements s)\<lparr>age_emulsion_seconds :=
                 map2 (\<lambda>a x. np_add a (np_mul x (Fin (time_step s)))) (age_emulsion_seconds (elements s)) u,
               water_content := wc\<rparr>,
             trace := trace s @ [Write ''age_emulsion_seconds'', Write ''water_content'']\<rparr>"
  by (auto simp: emulsify_def Let_def split: sum.splits option.splits)

lemma weather_frame:
  assumes "weather rng ws s = Inr s2"
  shows "config s2 = config s" and "model s2 = model s" and "time_step s2 = time_step s"
    and "environment s2 = environment s"
    and "mass_oil (elements s2) = mass_oil (elements s)"
    and "viscosity (elements s2) = viscosity (elements s)"
    and "density (elements s2) = density (elements s)"
    and "lon (elements s2) = lon (elements s)"
    and "lat (elements s2) = lat (elements s)"
    and "age_seconds (elements s2) = age_seconds (elements s)"
  using assms
  by (auto simp: weather_def deactivate_elements_def split: if_splits sum.splits prod.splits
      dest!: evaporate_Inr emulsify_Inr)

lemma transport_frame:
  shows "config (transport rng s) = config s" and "model (transport rng s) = model s"
    and "time_step (transport rng s) = time_step s"
    and "environment (transport rng s) = environment s"
    and "mass_oil (elements (transport rng s)) = mass_oil (elements s)"
    and "status (elements (transport rng s)) = status (elements s)"
    and "fraction_evaporated (elements (transport rng s)) = fraction_evaporated (elements s)"
    and "age_exposure_seconds (elements (transport rng s)) = age_exposure_seconds (elements s)"
    and "age_emulsion_seconds (elements (transport rng s)) = age_emulsion_seconds (elements s)"
    and "water_content (elements (transport rng s)) = water_content (elements s)"
  by (simp_all add: transport_def drift_def diffuse_def update_positions_def Let_def split: prod.splits)

lemma strand_frame:
  shows "config (strand s) = config s" and "model (strand s) = model s"
    and "time_step (strand s) = time_step s"
    and "environment (strand s) = environment s"
    and "mass_oil (elements (strand s)) = mass_oil (elements s)"
    and "lon (elements (strand s)) = lon (elements s)"
    and "lat (elements (strand s)) = lat (elements s)"
    and "fraction_evaporated (elements (strand s)) = fraction_evaporated (elements s)"
    and "age_exposure_seconds (elements (strand s)) = age_exposure_seconds (elements s)"
    and "age_emulsion_seconds (elements (strand s)) = age_emulsion_seconds (elements s)"
    and "water_content (elements (strand s)) = water_content (elements s)"
  by (simp_all add: strand_def deactivate_elements_def)

lemma disperse_frame:
  shows "config (disperse ws s) = config s" and "model (disperse ws s) = model s"
    and "time_step (disperse ws s) = time_step s"
    and "status (elements (disperse ws s)) = status (elements s)"
    and "lon (elements (disperse ws s)) = lon (elements s)"
    and "lat (elements (disperse ws s)) = lat (elements s)"
    and "fraction_evaporated (elements (disperse ws s)) = fraction_evaporated (elements s)"
    and "age_exposure_seconds (elements (disperse ws s)) = age_exposure_seconds (elements s)"
    and "age_emulsion_seconds (elements (disperse ws s)) = age_emulsion_seconds (elements s)"
    and "water_content (elements (disperse ws s)) = water_content (elements s)"
    and "land_binary_mask (environment (disperse ws s)) = land_binary_mask (environment s)"
    and "x_wind (environment (disperse ws s)) = x_wind (environment s)"
    and "y_wind (environment (disperse ws s)) = y_wind (environment s)"
    and "x_sea_water_velocity (environment (disperse ws s)) = x_sea_water_velocity (environment s)"
    and "y_sea_water_velocity (environment (disperse ws s)) = y_sea_water_velocity (environment s)"
  by (simp_all add: disperse_def Let_def)

lemma advance_age_frame:
  shows "config (advance_age s) = config s" and "model (advance_age s) = model s"
    and "time_step (advance_age s) = time_step s"
    and "environment (advance_age s) = environment s"
    and "mass_oil (elements (advance_age s)) = mass_oil (elements s)"
    and "viscosity (elements (advance_age s)) = viscosity (elements s)"
    and "density (elements (advance_age s)) = density (elements s)"
    and "status (elements (advance_age s)) = status (elements s)"
    and "lon (elements (advance_age s)) = lon (elements s)"
    and "lat (elements (advance_age s)) = lat (elements s)"
    and "depth (elements (advance_age s)) = depth (elements s)"
    and "fraction_evaporated (elements (advance_age s)) = fraction_evaporated (elements s)"
    and "age_exposure_seconds (elements (advance_age s)) = age_exposure_seconds (elements s)"
    and "age_emulsion_seconds (elements (advance_age s)) = age_emulsion_seconds (elements s)"
    and "water_content (elements (advance_age s)) = water_content (elements s)"
    and "num_elements_active (advance_age s) = num_elements_active s"
  by (simp_all add: advance_age_def num_elements_active_def)

lemma update_Inr:
  assumes "update rng s = Inr s'"
  obtains s2 where "weather rng (windspeed_of (environment s)) (advance_age s) = Inr s2"
    and "s' = transport rng (strand (if dispersion (config s) then
               disperse (windspeed_of (environment s)) s2 else s2))"
proof -
  from assms obtain s2 where w: "weather rng (windspeed_of (environment s)) (advance_age s) = Inr s2"
    and s': "s' = transport rng (strand (if dispersion (config s2) then
               disperse (windspeed_of (environment s)) s2 else s2))"
    by (auto simp: update_def Let_def advance_age_frame split: sum.splits)
  from weather_frame(1)[OF w] have "config s2 = config s" by (simp add: advance_age_frame)
  with w s' that show thesis by simp
qed

lemma update_mass_oil:
  assumes "update rng s = Inr s'"
  shows "mass_oil (elements s') =
     (if dispersion (config s)
      then map2 np_sub (mass_oil (elements s))
             (map2 (\<lambda>h (visc, dens). oil_mass_loss (time_step s) h visc dens)
                (wave_significant_height (sea_surface_wave_significant_height (environment s))
                   (windspeed_of (environment s)))
                (zip (viscosity (elements s)) (density (elements s))))
      else mass_oil (elements s))"
proof -
  from assms obtain s2 where w: "weather rng (windspeed_of (environment s)) (advance_age s) = Inr s2"
    and s': "s' = transport rng (strand (if dispersion (config s) then
               disperse (windspeed_of (environment s)) s2 else s2))"
    by (rule update_Inr)
  show ?thesis
    by (simp add: s' transport_frame strand_frame weather_frame[OF w] advance_age_frame
        disperse_def Let_def)
qed

lemma update_wave_height:
  assumes "update rng s = Inr s'"
  shows "sea_surface_wave_significant_height (environment s') =
     (if dispersion (config s)
      then wave_significant_height (sea_surface_wave_significant_height (environment s))
                   (windspeed_of (environment s))
      else sea_surface_wave_significant_height (environment s))"
proof -
  from assms obtain s2 where w: "weather rng (windspeed_of (environment s)) (advance_age s) = Inr s2"
    and s': "s' = transport rng (strand (if dispersion (config s) then
               disperse (windspeed_of (environment s)) s2 else s2))"
    by (rule update_Inr)
  show ?thesis
    by (simp add: s' transport_frame strand_frame weather_frame[OF w] advance_age_frame
        disperse_def Let_def)
qed

section \<open>Emulsification needs the evaporation block\<close>

text \<open>
  C2.  The specification says that emulsification advances \<open>age_emulsion_seconds\<close> by \<open>Urel * \<Delta>t\<close>
  in every time step in which it is enabled, also when evaporation is disabled.  In the
  source \<open>Urel\<close> is assigned only inside the evaporation block, so with evaporation
  disabled and emulsification enabled the step raises \<^verbatim>\<open>UnboundLocalError\<close> and updates
  nothing, whatever the particles are.
\<close>

theorem update_emulsification_unbound:
  "\<not> evaporation (config s) \<Longrightarrow> emulsification (config s) \<Longrightarrow>
   update rng s = Inl UnboundLocalError"
  by (simp add: update_def weather_def emulsify_def Let_def advance_age_def)

theorem update_emulsification_unbound_witness:
  "\<not> evaporation (config (sim0\<lparr>config := config0\<lparr>evaporation := False\<rparr>\<rparr>)) \<and>
   emulsification (config (sim0\<lparr>config := config0\<lparr>evaporation := False\<rparr>\<rparr>)) \<and>
   update rng0 (sim0\<lparr>config := config0\<lparr>evaporation := False\<rparr>\<rparr>) = Inl UnboundLocalError"
  using update_emulsification_unbound [of "sim0\<lparr>config := config0\<lparr>evaporation := False\<rparr>\<rparr>" rng0]
  by (simp add: sim0_def config0_def)

section \<open>Facts about the arrays of one step\<close>

lemma update_succeeds:
  assumes "evaporation (config s) \<or> \<not> emulsification (config s)"
    and "tref (model s) \<noteq> []"
    and "length (fref (model s)) = length (tref (model s))"
    and "length (wmax (model s)) = length (tref (model s))"
  shows "\<exists>s'. update rng s = Inr s'"
  using assms
  by (auto simp: update_def Let_def weather_def evaporate_def evaporation_locals_def emulsify_def
      interp_def advance_age_def deactivate_elements_def split: sum.splits prod.splits)

lemma windspeed_nth:
  "i < length (x_wind env) \<Longrightarrow> i < length (y_wind env) \<Longrightarrow>
   windspeed_of env ! i = sqrt ((x_wind env ! i) ^ 2 + (y_wind env ! i) ^ 2)"
  by (simp add: windspeed_of_def)

lemma length_windspeed: "length (windspeed_of env) = min (length (x_wind env)) (length (y_wind env))"
  by (simp add: windspeed_of_def)

lemma aligned_lengths:
  assumes "aligned s"
  shows "length (mass_oil (elements s)) = num_elements_active s"
    and "length (viscosity (elements s)) = num_elements_active s"
    and "length (density (elements s)) = num_elements_active s"
    and "length (age_seconds (elements s)) = num_elements_active s"
    and "length (age_emulsion_seconds (elements s)) = num_elements_active s"
    and "length (fraction_evaporated (elements s)) = num_elements_active s"
    and "length (water_content (elements s)) = num_elements_active s"
    and "length (lon (elements s)) = num_elements_active s"
    and "length (lat (elements s)) = num_elements_active s"
    and "length (x_sea_water_velocity (environment s)) = num_elements_active s"
    and "length (y_sea_water_velocity (environment s)) = num_elements_active s"
    and "length (sea_surface_wave_significant_height (environment s)) = num_elements_active s"
    and "length (x_wind (environment s)) = num_elements_active s"
    and "length (y_wind (environment s)) = num_elements_active s"
    and "length (land_binary_mask (environment s)) = num_elements_active s"
    and "length (windspeed_of (environment s)) = num_elements_active s"
  using assms by (simp_all add: aligned_def Let_def length_windspeed)

lemma aligned_sim0: "aligned sim0"
  by (simp add: aligned_def sim0_def elements0_def environment0_def num_elements_active_def)

lemma c_disp_pos: "h \<noteq> 0 \<Longrightarrow> 0 < c_disp h"
  by (simp add: c_disp_def dissipation_wave_energy_def sea_water_density_def
      fraction_breaking_waves_def)

lemma q_disp_scenario:
  "\<exists>q. q_disp 2 (Fin (1 / 2)) (Fin 800) = Fin q \<and> 0 < q"
proof -
  define r where "r = 2400 * exp (- 73.682 * sqrt ((1 / 2) / 800)) * c_disp 2 * v_entrain / 800"
  have "0 < c_disp 2" by (rule c_disp_pos) simp
  moreover have "0 < v_entrain" by (simp add: v_entrain_def)
  ultimately have "0 < r" by (simp add: r_def)
  moreover have "q_disp 2 (Fin (1 / 2)) (Fin 800) = Fin r"
    by (simp add: q_disp_def C_Roy_def r_def)
  ultimately show ?thesis by blast
qed

section \<open>Dispersion\<close>

text \<open>
  C5.  With dispersion enabled, one step takes from the \<open>mass_oil\<close> of every particle
  exactly \<open>mass_loss = q_disp * \<Delta>t * density\<close> with
  \<open>q_disp = C_Roy * c_disp * v_entrain / density\<close>, and nothing bounds the result from
  below.  In the reference scenario (1000 kg, viscosity 0.5, density 800, waves of 2 m,
  wind (5, 0) m/s, one hour) \<open>q_disp\<close> is positive and the mass strictly decreases; the
  same particle starting from a mass of 0 ends with a negative mass.
\<close>

theorem dispersion_mass_loss:
  "(\<forall>rng s s' i. dispersion (config s) \<and> aligned s \<and> update rng s = Inr s' \<and>
       i < num_elements_active s \<longrightarrow>
     (let visc = viscosity (elements s) ! i; dens = density (elements s) ! i;
          h = wave_significant_height (sea_surface_wave_significant_height (environment s))
                (windspeed_of (environment s)) ! i;
          q = np_div (np_mul (np_mul (C_Roy visc dens) (Fin (c_disp h))) (Fin v_entrain)) dens;
          mass_loss = np_mul (np_mul q (Fin (time_step s))) dens
      in mass_oil (elements s') ! i = np_sub (mass_oil (elements s) ! i) mass_loss)) \<and>
   (\<exists>s' q m. update rng0 sim0 = Inr s' \<and>
       q_disp 2 (Fin (1 / 2)) (Fin 800) = Fin q \<and> 0 < q \<and>
       mass_oil (elements sim0) = [Fin 1000] \<and> mass_oil (elements s') = [Fin m] \<and> m < 1000) \<and>
   (\<exists>s' m. update rng0 (sim0\<lparr>elements := elements0\<lparr>mass_oil := [Fin 0]\<rparr>\<rparr>) = Inr s' \<and>
       mass_oil (elements s') = [Fin m] \<and> m < 0)"
proof (intro conjI allI impI)
  fix rng s s' i
  assume h: "dispersion (config s) \<and> aligned s \<and> update rng s = Inr s' \<and> i < num_elements_active s"
  then show "let visc = viscosity (elements s) ! i; dens = density (elements s) ! i;
          h = wave_significant_height (sea_surface_wave_significant_height (environment s))
                (windspeed_of (environment s)) ! i;
          q = np_div (np_mul (np_mul (C_Roy visc dens) (Fin (c_disp h))) (Fin v_entrain)) dens;
          mass_loss = np_mul (np_mul q (Fin (time_step s))) dens
      in mass_oil (elements s') ! i = np_sub (mass_oil (elements s) ! i) mass_loss"
    using update_mass_oil[of rng s s'] aligned_lengths[of s]
    by (simp add: Let_def oil_mass_loss_def q_disp_def wave_significant_height_def)
next
  obtain s' where u: "update rng0 sim0 = Inr s'"
    using update_succeeds[of sim0 rng0] by (auto simp: sim0_def config0_def model0_def)
  obtain q where q: "q_disp 2 (Fin (1 / 2)) (Fin 800) = Fin q" "0 < q"
    using q_disp_scenario by blast
  have "mass_oil (elements s') = [Fin (1000 - q * 3600 * 800)]"
    using update_mass_oil[OF u] q
    by (simp add: sim0_def config0_def elements0_def environment0_def windspeed_of_def
        wave_significant_height_def oil_mass_loss_def np_sub_def)
  moreover have "1000 - q * 3600 * 800 < 1000" using q by simp
  ultimately show "\<exists>s' q m. update rng0 sim0 = Inr s' \<and>
       q_disp 2 (Fin (1 / 2)) (Fin 800) = Fin q \<and> 0 < q \<and>
       mass_oil (elements sim0) = [Fin 1000] \<and> mass_oil (elements s') = [Fin m] \<and> m < 1000"
    using u q by (auto simp: sim0_def elements0_def)
next
  let ?s = "sim0\<lparr>elements := elements0\<lparr>mass_oil := [Fin 0]\<rparr>\<rparr>"
  obtain s' where u: "update rng0 ?s = Inr s'"
    using update_succeeds[of ?s rng0] by (auto simp: sim0_def config0_def model0_def)
  obtain q where q: "q_disp 2 (Fin (1 / 2)) (Fin 800) = Fin q" "0 < q"
    using q_disp_scenario by blast
  have "mass_oil (elements s') = [Fin (0 - q * 3600 * 800)]"
    using update_mass_oil[OF u] q
    by (simp add: sim0_def config0_def elements0_def environment0_def windspeed_of_def
        wave_significant_height_def oil_mass_loss_def np_sub_def)
  moreover have "0 - q * 3600 * 800 < 0" using q by simp
  ultimately show "\<exists>s' m. update rng0 ?s = Inr s' \<and> mass_oil (elements s') = [Fin m] \<and> m < 0"
    using u by blast
qed

theorem dispersion_mass_loss_witness:
  "dispersion (config sim0) \<and> aligned sim0 \<and> 0 < num_elements_active sim0 \<and>
   (\<exists>s'. update rng0 sim0 = Inr s' \<and>
      mass_oil (elements s') ! 0 =
        np_sub (Fin 1000)
          (np_mul (np_mul (np_div (np_mul (np_mul (C_Roy (Fin (1 / 2)) (Fin 800)) (Fin (c_disp 2)))
             (Fin v_entrain)) (Fin 800)) (Fin 3600)) (Fin 800)))"
proof -
  obtain s' where u: "update rng0 sim0 = Inr s'"
    using update_succeeds[of sim0 rng0] by (auto simp: sim0_def config0_def model0_def)
  have d: "dispersion (config sim0)" by (simp add: sim0_def config0_def)
  have n: "0 < num_elements_active sim0" by (simp add: sim0_def elements0_def num_elements_active_def)
  from dispersion_mass_loss have "dispersion (config sim0) \<and> aligned sim0 \<and> update rng0 sim0 = Inr s' \<and>
       0 < num_elements_active sim0 \<longrightarrow>
     (let visc = viscosity (elements sim0) ! 0; dens = density (elements sim0) ! 0;
          h = wave_significant_height (sea_surface_wave_significant_height (environment sim0))
                (windspeed_of (environment sim0)) ! 0;
          q = np_div (np_mul (np_mul (C_Roy visc dens) (Fin (c_disp h))) (Fin v_entrain)) dens;
          mass_loss = np_mul (np_mul q (Fin (time_step sim0))) dens
      in mass_oil (elements s') ! 0 = np_sub (mass_oil (elements sim0) ! 0) mass_loss)"
    by blast
  with d aligned_sim0 u n
  have "mass_oil (elements s') ! 0 =
        np_sub (Fin 1000)
          (np_mul (np_mul (np_div (np_mul (np_mul (C_Roy (Fin (1 / 2)) (Fin 800)) (Fin (c_disp 2)))
             (Fin v_entrain)) (Fin 800)) (Fin 3600)) (Fin 800))"
    by (simp add: Let_def sim0_def elements0_def environment0_def windspeed_of_def
        wave_significant_height_def)
  with d aligned_sim0 u n show ?thesis by blast
qed

section \<open>Lengths and traces\<close>

lemma length_at_surface:
  "(case d of Scalar z \<Rightarrow> True | Arr zs \<Rightarrow> length zs = n) \<Longrightarrow> length (at_surface_of n d) = n"
  by (simp add: at_surface_of_def split: nparr.splits)

lemma aligned_at_surface:
  "aligned s \<Longrightarrow> length (at_surface_of (num_elements_active s) (depth (elements s))) = num_elements_active s"
  by (rule length_at_surface) (simp add: aligned_def Let_def)


lemma evaporation_locals_lengths:
  assumes "aligned s" and "length ws = num_elements_active s"
    and "evaporation_locals ws s = Inr (u, age, fe, p)"
  shows "length u = num_elements_active s" and "length age = num_elements_active s"
    and "length fe = num_elements_active s" and "length p = num_elements_active s"
proof -
  have a: "length (at_surface_of (num_elements_active s) (depth (elements s))) = num_elements_active s"
    using assms(1) by (rule aligned_at_surface)
  have f: "length (fraction_evaporated (elements s)) = num_elements_active s"
    using assms(1) by (simp add: aligned_lengths)
  have x: "case age_exposure_seconds (elements s) of Scalar a \<Rightarrow> True
           | Arr as \<Rightarrow> length as = num_elements_active s"
    using assms(1) by (simp add: aligned_def Let_def)
  from assms(3) show "length u = num_elements_active s"
    using assms(2) by (auto simp: evaporation_locals_def Let_def split: sum.splits)
  from assms(3) x show "length age = num_elements_active s"
    using assms(2) a
    by (auto simp: evaporation_locals_def Let_def add_where_def split: sum.splits nparr.splits)
  from assms(3) x show fe: "length fe = num_elements_active s"
    using assms(2) a
    by (auto simp: evaporation_locals_def Let_def add_where_def interp_def
        split: sum.splits nparr.splits if_splits)
  from assms(3) x show "length p = num_elements_active s"
    using assms(2) a f
    by (auto simp: evaporation_locals_def Let_def add_where_def interp_def
        split: sum.splits nparr.splits if_splits)
qed


lemma weather_trace:
  assumes "weather rng ws s = Inr s2"
  shows "\<exists>m. trace s2 = trace s @
      (if evaporation (config s)
       then [Write ''age_exposure_seconds'', Write ''fraction_evaporated'', Deactivate m Evaporated]
       else []) @
      (if emulsification (config s)
       then [Write ''age_emulsion_seconds'', Write ''water_content''] else [])"
  using assms
  by (auto simp: weather_def deactivate_elements_def split: if_splits sum.splits prod.splits
      dest!: evaporate_Inr emulsify_Inr)

lemma disperse_trace:
  "trace (disperse ws s) =
     trace s @ [Write ''sea_surface_wave_significant_height'', Write ''mass_oil'']"
  by (simp add: disperse_def Let_def)

lemma strand_trace:
  "trace (strand s) =
     trace s @ [Deactivate (map (\<lambda>l. l = 1) (land_binary_mask (environment s))) Stranded]"
  by (simp add: strand_def deactivate_elements_def)

lemma drift_trace:
  "trace (drift s) = trace s @
     [UpdatePositions (x_sea_water_velocity (environment s)) (y_sea_water_velocity (environment s)),
      UpdatePositions (map (\<lambda>x. x * wind_drift_factor (config s)) (x_wind (environment s)))
                      (map (\<lambda>y. y * wind_drift_factor (config s)) (y_wind (environment s)))]"
  by (simp add: drift_def update_positions_def Let_def)

lemma drift_frame:
  shows "config (drift s) = config s" and "environment (drift s) = environment s"
    and "num_elements_active (drift s) = num_elements_active s"
  by (simp_all add: drift_def update_positions_def Let_def num_elements_active_def)

lemma noise_update_positions:
  shows "current_noise rng (update_positions u v s) = current_noise rng s"
    and "wind_noise rng (update_positions u v s) = wind_noise rng s"
  by (simp_all add: current_noise_def wind_noise_def update_positions_def num_elements_active_def Let_def)

lemma diffuse_trace:
  "trace (diffuse rng s) = trace s @
     [UpdatePositions (fst (current_noise rng s)) (snd (current_noise rng s)),
      UpdatePositions (fst (wind_noise rng s)) (snd (wind_noise rng s))]"
  by (simp add: diffuse_def Let_def noise_update_positions split: prod.splits)
     (simp add: update_positions_def)

lemma noise_drift:
  shows "current_noise rng (drift s) = current_noise rng s"
    and "wind_noise rng (drift s) = wind_noise rng s"
  by (simp_all add: current_noise_def wind_noise_def drift_frame Let_def)

lemma transport_trace:
  "trace (transport rng s) = trace s @
     [UpdatePositions (x_sea_water_velocity (environment s)) (y_sea_water_velocity (environment s)),
      UpdatePositions (map (\<lambda>x. x * wind_drift_factor (config s)) (x_wind (environment s)))
                      (map (\<lambda>y. y * wind_drift_factor (config s)) (y_wind (environment s)))] @
     (if diffusion (config s)
      then [UpdatePositions (fst (current_noise rng s)) (snd (current_noise rng s)),
            UpdatePositions (fst (wind_noise rng s)) (snd (wind_noise rng s))]
      else [])"
  by (simp add: transport_def Let_def drift_frame diffuse_trace drift_trace noise_drift)

section \<open>The order of the blocks\<close>

text \<open>
  C3.  Every step that returns runs its blocks in one order: evaporation, emulsification,
  dispersion, the stranding test, the position updates.  The trace of the step is the one
  written below, whatever the configuration enables; the stranding mask is
  \<open>land_binary_mask == 1\<close> of the snapshot the step received, and the state it is applied
  to still has the positions the particles had when the step began: every call of
  \<^verbatim>\<open>update_positions\<close> comes later.
\<close>

theorem update_order:
  assumes "update rng s = Inr s'"
  shows "\<exists>m after s3.
     trace s' = trace s @ [Write ''age_seconds''] @
       (if evaporation (config s)
        then [Write ''age_exposure_seconds'', Write ''fraction_evaporated'', Deactivate m Evaporated]
        else []) @
       (if emulsification (config s)
        then [Write ''age_emulsion_seconds'', Write ''water_content''] else []) @
       (if dispersion (config s)
        then [Write ''sea_surface_wave_significant_height'', Write ''mass_oil''] else []) @
       [Deactivate (map (\<lambda>l. l = 1) (land_binary_mask (environment s))) Stranded,
        UpdatePositions (x_sea_water_velocity (environment s)) (y_sea_water_velocity (environment s)),
        UpdatePositions (map (\<lambda>x. x * wind_drift_factor (config s)) (x_wind (environment s)))
                        (map (\<lambda>y. y * wind_drift_factor (config s)) (y_wind (environment s)))] @
       after \<and>
     (if diffusion (config s)
      then \<exists>u1 v1 u2 v2. after = [UpdatePositions u1 v1, UpdatePositions u2 v2]
      else after = []) \<and>
     s' = transport rng (strand s3) \<and>
     lon (elements s3) = lon (elements s) \<and> lat (elements s3) = lat (elements s)"
proof -
  let ?ws = "windspeed_of (environment s)"
  from assms obtain s2 where w: "weather rng ?ws (advance_age s) = Inr s2"
    and s': "s' = transport rng (strand (if dispersion (config s) then disperse ?ws s2 else s2))"
    by (rule update_Inr)
  let ?s3 = "if dispersion (config s) then disperse ?ws s2 else s2"
  from weather_trace[OF w] obtain m where
    t2: "trace s2 = trace (advance_age s) @
      (if evaporation (config s)
       then [Write ''age_exposure_seconds'', Write ''fraction_evaporated'', Deactivate m Evaporated]
       else []) @
      (if emulsification (config s)
       then [Write ''age_emulsion_seconds'', Write ''water_content''] else [])"
    by (auto simp: advance_age_frame)
  have t0: "trace (advance_age s) = trace s @ [Write ''age_seconds'']"
    by (simp add: advance_age_def)
  have c3: "config ?s3 = config s" and e3: "land_binary_mask (environment ?s3) = land_binary_mask (environment s)"
    and x3: "x_wind (environment ?s3) = x_wind (environment s)"
    and y3: "y_wind (environment ?s3) = y_wind (environment s)"
    and u3: "x_sea_water_velocity (environment ?s3) = x_sea_water_velocity (environment s)"
    and v3: "y_sea_water_velocity (environment ?s3) = y_sea_water_velocity (environment s)"
    and l3: "lon (elements ?s3) = lon (elements s)" "lat (elements ?s3) = lat (elements s)"
    by (simp_all add: disperse_frame weather_frame[OF w] advance_age_frame)
  have t3: "trace ?s3 = trace s2 @
       (if dispersion (config s)
        then [Write ''sea_surface_wave_significant_height'', Write ''mass_oil''] else [])"
    by (simp add: disperse_trace)
  let ?after = "if diffusion (config s)
      then [UpdatePositions (fst (current_noise rng (strand ?s3))) (snd (current_noise rng (strand ?s3))),
            UpdatePositions (fst (wind_noise rng (strand ?s3))) (snd (wind_noise rng (strand ?s3)))]
      else []"
  have "trace s' = trace s @ [Write ''age_seconds''] @
       (if evaporation (config s)
        then [Write ''age_exposure_seconds'', Write ''fraction_evaporated'', Deactivate m Evaporated]
        else []) @
       (if emulsification (config s)
        then [Write ''age_emulsion_seconds'', Write ''water_content''] else []) @
       (if dispersion (config s)
        then [Write ''sea_surface_wave_significant_height'', Write ''mass_oil''] else []) @
       [Deactivate (map (\<lambda>l. l = 1) (land_binary_mask (environment s))) Stranded,
        UpdatePositions (x_sea_water_velocity (environment s)) (y_sea_water_velocity (environment s)),
        UpdatePositions (map (\<lambda>x. x * wind_drift_factor (config s)) (x_wind (environment s)))
                        (map (\<lambda>y. y * wind_drift_factor (config s)) (y_wind (environment s)))] @
       ?after"
    unfolding s' transport_trace strand_trace strand_frame t3 t2 t0 c3 e3 x3 y3 u3 v3
    by simp
  moreover have "if diffusion (config s)
      then \<exists>u1 v1 u2 v2. ?after = [UpdatePositions u1 v1, UpdatePositions u2 v2]
      else ?after = []"
    by simp
  ultimately show ?thesis using s' l3 by blast
qed

theorem update_order_witness:
  "\<exists>s' m u1 v1 u2 v2. update rng0 sim0 = Inr s' \<and>
     trace s' =
       [Write ''age_seconds'',
        Write ''age_exposure_seconds'', Write ''fraction_evaporated'', Deactivate m Evaporated,
        Write ''age_emulsion_seconds'', Write ''water_content'',
        Write ''sea_surface_wave_significant_height'', Write ''mass_oil'',
        Deactivate [False] Stranded,
        UpdatePositions [0] [0], UpdatePositions [1 / 10] [0],
        UpdatePositions u1 v1, UpdatePositions u2 v2]"
proof -
  obtain s' where u: "update rng0 sim0 = Inr s'"
    using update_succeeds[of sim0 rng0] by (auto simp: sim0_def config0_def model0_def)
  from update_order[OF u] obtain m after where
    "trace s' = [Write ''age_seconds'',
        Write ''age_exposure_seconds'', Write ''fraction_evaporated'', Deactivate m Evaporated,
        Write ''age_emulsion_seconds'', Write ''water_content'',
        Write ''sea_surface_wave_significant_height'', Write ''mass_oil'',
        Deactivate [False] Stranded,
        UpdatePositions [0] [0], UpdatePositions [1 / 10] [0]] @ after"
    and "\<exists>u1 v1 u2 v2. after = [UpdatePositions u1 v1, UpdatePositions u2 v2]"
    by (auto simp: sim0_def config0_def environment0_def)
  with u show ?thesis by auto
qed

section \<open>Diffusion\<close>



lemma draws_ok_rng0: "draws_ok rng0"
  by (simp add: draws_ok_def rng0_def list_all_length)







section \<open>Dispersion writes into the environment\<close>

lemma wind_wave_zero:
  "0.0246 * (sqrt (x ^ 2 + y ^ 2)) ^ 2 = (0::real) \<longleftrightarrow> x = 0 \<and> y = 0"
proof
  assume a: "0.0246 * (sqrt (x ^ 2 + y ^ 2)) ^ 2 = (0::real)"
  have "(sqrt (x ^ 2 + y ^ 2)) ^ 2 = x ^ 2 + y ^ 2" by simp
  with a have b: "0.0246 * (x ^ 2 + y ^ 2) = 0" by (simp only:)
  then have "(0.0246::real) = 0 \<or> x ^ 2 + y ^ 2 = 0" by (simp only: mult_eq_0_iff)
  then show "x = 0 \<and> y = 0" by simp
next
  assume "x = 0 \<and> y = 0"
  then show "0.0246 * (sqrt (x ^ 2 + y ^ 2)) ^ 2 = (0::real)" by simp
qed

text \<open>
  C9.  The dispersion block changes the environment snapshot, not only the particles: after
  a step with dispersion enabled every entry of \<open>sea_surface_wave_significant_height\<close> that
  was 0 holds \<open>0.0246 * windspeed\<^sup>2\<close> and every other entry is as it was.  Where an entry
  was 0 and the wind is not, the environment is no longer the one the provider supplied.
\<close>

theorem dispersion_writes_environment:
  assumes "dispersion (config s)" and "aligned s" and "update rng s = Inr s'"
    and "i < num_elements_active s"
  shows "sea_surface_wave_significant_height (environment s') ! i =
       (if sea_surface_wave_significant_height (environment s) ! i = 0
        then 0.0246 * (sqrt ((x_wind (environment s) ! i) ^ 2 + (y_wind (environment s) ! i) ^ 2)) ^ 2
        else sea_surface_wave_significant_height (environment s) ! i) \<and>
     (sea_surface_wave_significant_height (environment s) ! i = 0 \<and>
      (x_wind (environment s) ! i \<noteq> 0 \<or> y_wind (environment s) ! i \<noteq> 0) \<longrightarrow>
        environment s' \<noteq> environment s)"
proof -
  let ?H = "sea_surface_wave_significant_height (environment s)"
  let ?w = "sqrt ((x_wind (environment s) ! i) ^ 2 + (y_wind (environment s) ! i) ^ 2)"
  have w: "windspeed_of (environment s) ! i = ?w"
    using assms(2,4) by (simp add: windspeed_nth aligned_lengths)
  have h: "sea_surface_wave_significant_height (environment s') ! i =
       (if ?H ! i = 0 then 0.0246 * ?w ^ 2 else ?H ! i)"
    using update_wave_height[OF assms(3)] assms(1,4) aligned_lengths[OF assms(2)] w
    by (simp add: wave_significant_height_def)
  have "environment s' \<noteq> environment s"
    if z: "?H ! i = 0" and nz: "x_wind (environment s) ! i \<noteq> 0 \<or> y_wind (environment s) ! i \<noteq> 0"
  proof
    assume "environment s' = environment s"
    with h z have "0.0246 * ?w ^ 2 = 0" by simp
    with nz show False using wind_wave_zero by blast
  qed
  with h show ?thesis by blast
qed

theorem dispersion_writes_environment_witness:
  "dispersion (config sim_calm) \<and> aligned sim_calm \<and> 0 < num_elements_active sim_calm \<and>
   sea_surface_wave_significant_height (environment sim_calm) = [0] \<and>
   (\<exists>s'. update rng0 sim_calm = Inr s' \<and>
      sea_surface_wave_significant_height (environment s') ! 0 = 0.0246 * 25 \<and>
      environment s' \<noteq> environment sim_calm)"
proof -
  have d: "dispersion (config sim_calm)" by (simp add: sim_calm_def sim0_def config0_def)
  have a: "aligned sim_calm"
    by (simp add: sim_calm_def aligned_def sim0_def elements0_def environment0_def
        num_elements_active_def)
  have n: "0 < num_elements_active sim_calm"
    by (simp add: sim_calm_def sim0_def elements0_def num_elements_active_def)
  have e: "sea_surface_wave_significant_height (environment sim_calm) = [0]"
    by (simp add: sim_calm_def)
  obtain s' where u: "update rng0 sim_calm = Inr s'"
    using update_succeeds[of sim_calm rng0]
    by (auto simp: sim_calm_def sim0_def config0_def model0_def)
  from dispersion_writes_environment[OF d a u n]
  have "sea_surface_wave_significant_height (environment s') ! 0 = 0.0246 * 25 \<and>
      environment s' \<noteq> environment sim_calm"
    by (simp add: sim_calm_def sim0_def environment0_def)
  with d a n e u show ?thesis by blast
qed

section \<open>The combined reader\<close>

lemma map_entry_distinct:
  "distinct (map fst e) \<Longrightarrow>
   AList.map_entry k f e = map (\<lambda>(k', v). (k', if k' = k then f v else v)) e"
proof (induction e)
  case Nil
  then show ?case by simp
next
  case (Cons p e)
  obtain k' v where p: "p = (k', v)" by (cases p)
  show ?case
  proof (cases "k' = k")
    case True
    with Cons.prems p have "k \<notin> fst ` set e" by simp
    then have "map (\<lambda>(k', v). (k', if k' = k then f v else v)) e = e"
      by (induction e) (auto split: prod.splits)
    with True p show ?thesis by simp
  next
    case False
    with Cons p show ?thesis by simp
  qed
qed

lemma fold_map_entry:
  "distinct ks \<Longrightarrow> distinct (map fst e) \<Longrightarrow>
   fold (\<lambda>var e. AList.map_entry var f e) ks e =
     map (\<lambda>(k, v). (k, if k \<in> set ks then f v else v)) e"
proof (induction ks arbitrary: e)
  case Nil
  then show ?case by simp
next
  case (Cons k ks)
  let ?e = "map (\<lambda>(k', v). (k', if k' = k then f v else v)) e"
  have keys: "map fst ?e = map fst e" by (induction e) auto
  have "fold (\<lambda>var e. AList.map_entry var f e) (k # ks) e =
        fold (\<lambda>var e. AList.map_entry var f e) ks ?e"
    using Cons.prems(2) by (simp add: map_entry_distinct)
  also have "\<dots> = map (\<lambda>(k, v). (k, if k \<in> set ks then f v else v)) ?e"
  proof (rule Cons.IH)
    show "distinct ks" using Cons.prems(1) by simp
    show "distinct (map fst ?e)" unfolding keys by (rule Cons.prems(2))
  qed
  also have "\<dots> = map (\<lambda>(k', v). (k', if k' \<in> set (k # ks) then f v else v)) e"
    using Cons.prems(1) by (auto split: prod.splits)
  finally show ?case .
qed

lemma apply_to_variables_distinct:
  assumes "distinct (map fst d)"
  shows "apply_to_variables f d =
     map (\<lambda>(k, v). (k, if k \<in> {''x'', ''y'', ''time''} then v else f v)) d"
proof -
  let ?vars = "filter (\<lambda>var. var \<notin> set [''x'', ''y'', ''time'']) (map fst d)"
  have "distinct ?vars" using assms by simp
  then have "apply_to_variables f d = map (\<lambda>(k, v). (k, if k \<in> set ?vars then f v else v)) d"
    using assms by (simp add: apply_to_variables_def fold_map_entry)
  also have "\<dots> = map (\<lambda>(k, v). (k, if k \<in> {''x'', ''y'', ''time''} then v else f v)) d"
    by (rule map_cong) (auto simp: rev_image_eqI)
  finally show ?thesis .
qed

text \<open>
  C10.  A reader combined with a number \<open>n\<close> returns what the wrapped reader returns, with
  the operation applied to every element of every variable of \<open>env\<close> and of
  \<open>env_profiles\<close>, except the entries \<open>x\<close>, \<open>y\<close> and \<open>time\<close>, which come back as they are.
  The operation is \<open>n + x\<close> for \<open>add\<close>, \<open>n * x\<close> for \<open>mul\<close>, \<open>x - n\<close> for \<open>sub\<close> and
  \<open>x / n\<close> for \<open>div\<close>.
\<close>

theorem combined_get_variables:
  assumes "r args = (env, env_profiles)"
    and "distinct (map fst env)" and "distinct (map fst env_profiles)"
  shows
   "get_variables_interpolated (Combined_add n r) args =
      (map (\<lambda>(k, v). (k, if k \<in> {''x'', ''y'', ''time''} then v else map (\<lambda>x. np_add n x) v)) env,
       map (\<lambda>(k, v). (k, if k \<in> {''x'', ''y'', ''time''} then v
                         else map (map (\<lambda>x. np_add n x)) v)) env_profiles) \<and>
    get_variables_interpolated (Combined_mul n r) args =
      (map (\<lambda>(k, v). (k, if k \<in> {''x'', ''y'', ''time''} then v else map (\<lambda>x. np_mul n x) v)) env,
       map (\<lambda>(k, v). (k, if k \<in> {''x'', ''y'', ''time''} then v
                         else map (map (\<lambda>x. np_mul n x)) v)) env_profiles) \<and>
    get_variables_interpolated (Combined_sub n r) args =
      (map (\<lambda>(k, v). (k, if k \<in> {''x'', ''y'', ''time''} then v else map (\<lambda>x. np_sub x n) v)) env,
       map (\<lambda>(k, v). (k, if k \<in> {''x'', ''y'', ''time''} then v
                         else map (map (\<lambda>x. np_sub x n)) v)) env_profiles) \<and>
    get_variables_interpolated (Combined_div n r) args =
      (map (\<lambda>(k, v). (k, if k \<in> {''x'', ''y'', ''time''} then v else map (\<lambda>x. np_div x n) v)) env,
       map (\<lambda>(k, v). (k, if k \<in> {''x'', ''y'', ''time''} then v
                         else map (map (\<lambda>x. np_div x n)) v)) env_profiles)"
  using assms
  by (simp add: Combined_add_def Combined_mul_def Combined_sub_def Combined_div_def
      apply_to_variables_distinct)

theorem combined_get_variables_witness:
  "reader0 () = ([(''x'', [Fin 1]), (''x_wind'', [Fin 6, Fin 0]), (''time'', [Fin 7])],
                 [(''z'', [[Fin 4]]), (''y'', [[Fin 2]])]) \<and>
   get_variables_interpolated (Combined_add (Fin 2) reader0) () =
     ([(''x'', [Fin 1]), (''x_wind'', [Fin 8, Fin 2]), (''time'', [Fin 7])],
      [(''z'', [[Fin 6]]), (''y'', [[Fin 2]])]) \<and>
   get_variables_interpolated (Combined_mul (Fin 2) reader0) () =
     ([(''x'', [Fin 1]), (''x_wind'', [Fin 12, Fin 0]), (''time'', [Fin 7])],
      [(''z'', [[Fin 8]]), (''y'', [[Fin 2]])]) \<and>
   get_variables_interpolated (Combined_sub (Fin 2) reader0) () =
     ([(''x'', [Fin 1]), (''x_wind'', [Fin 4, Fin (- 2)]), (''time'', [Fin 7])],
      [(''z'', [[Fin 2]]), (''y'', [[Fin 2]])]) \<and>
   get_variables_interpolated (Combined_div (Fin 2) reader0) () =
     ([(''x'', [Fin 1]), (''x_wind'', [Fin 3, Fin 0]), (''time'', [Fin 7])],
      [(''z'', [[Fin 2]]), (''y'', [[Fin 2]])])"
  using combined_get_variables [of reader0 "()"
      "[(''x'', [Fin 1]), (''x_wind'', [Fin 6, Fin 0]), (''time'', [Fin 7])]"
      "[(''z'', [[Fin 4]]), (''y'', [[Fin 2]])]" "Fin 2"]
  by (simp add: reader0_def np_sub_def)

section \<open>The evaporation block, element by element\<close>

lemma evaporation_locals_advance_age:
  "evaporation_locals ws (advance_age s) = evaporation_locals ws s"
  by (simp add: evaporation_locals_def advance_age_frame Let_def
      cong: sum.case_cong nparr.case_cong)

lemma evaporation_locals_Inr:
  assumes "evaporation_locals ws s = Inr (u, age, fe, p)"
  shows "u = map (\<lambda>w. np_div (Fin w) (Fin (reference_wind (model s)))) ws \<and>
     age = (case age_exposure_seconds (elements s) of
       Scalar a \<Rightarrow> map (np_add a)
          (map (\<lambda>u. np_mul (np_mul (Fin (reference_thickness (model s) / 2)) u) (Fin (time_step s))) u)
     | Arr as \<Rightarrow> add_where (at_surface_of (num_elements_active s) (depth (elements s))) as
          (map (\<lambda>u. np_mul (np_mul (Fin (reference_thickness (model s) / 2)) u) (Fin (time_step s))) u)) \<and>
     interp age (tref (model s)) (fref (model s)) = Inr fe \<and>
     p = map2 (\<lambda>surface p. if surface then p else Fin 0)
        (at_surface_of (num_elements_active s) (depth (elements s)))
        (map2 np_div (map2 np_sub fe (fraction_evaporated (elements s)))
           (map (np_sub (Fin 1)) (fraction_evaporated (elements s))))"
  using assms unfolding evaporation_locals_def Let_def
  by (auto split: sum.splits simp del: np_div.simps np_mul.simps np_add.simps)

lemma at_surface_nth:
  assumes "aligned s" and "i < num_elements_active s"
  shows "at_surface_of (num_elements_active s) (depth (elements s)) ! i =
           (element_of (depth (elements s)) i = 0)"
  using assms
  by (auto simp: at_surface_of_def element_of_def aligned_def Let_def split: nparr.splits)

lemma evaporation_locals_nth:
  assumes "aligned s" and "length ws = num_elements_active s"
    and "evaporation_locals ws s = Inr (u, age, fe, p)" and "i < num_elements_active s"
  shows "u ! i = np_div (Fin (ws ! i)) (Fin (reference_wind (model s)))"
    and "age ! i =
      (if element_of (depth (elements s)) i = 0 \<or> (\<exists>a. age_exposure_seconds (elements s) = Scalar a)
       then np_add (element_of (age_exposure_seconds (elements s)) i)
              (np_mul (np_mul (Fin (reference_thickness (model s) / 2)) (u ! i)) (Fin (time_step s)))
       else element_of (age_exposure_seconds (elements s)) i)"
    and "fe ! i = np_interp (age ! i) (tref (model s)) (fref (model s))"
    and "p ! i =
      (if element_of (depth (elements s)) i = 0
       then np_div (np_sub (fe ! i) (fraction_evaporated (elements s) ! i))
                   (np_sub (Fin 1) (fraction_evaporated (elements s) ! i))
       else Fin 0)"
    and "tref (model s) \<noteq> []" and "length (fref (model s)) = length (tref (model s))"
proof -
  note len = evaporation_locals_lengths[OF assms(1,2,3)]
  have a: "length (at_surface_of (num_elements_active s) (depth (elements s))) = num_elements_active s"
    using assms(1) by (rule aligned_at_surface)
  have f: "length (fraction_evaporated (elements s)) = num_elements_active s"
    using assms(1) by (simp add: aligned_lengths)
  have x: "case age_exposure_seconds (elements s) of Scalar a \<Rightarrow> True
           | Arr as \<Rightarrow> length as = num_elements_active s"
    using assms(1) by (simp add: aligned_def Let_def)
  note sf = at_surface_nth[OF assms(1,4)]
  from evaporation_locals_Inr[OF assms(3)]
  have ue: "u = map (\<lambda>w. np_div (Fin w) (Fin (reference_wind (model s)))) ws"
    and age: "age = (case age_exposure_seconds (elements s) of
       Scalar a \<Rightarrow> map (np_add a)
          (map (\<lambda>u. np_mul (np_mul (Fin (reference_thickness (model s) / 2)) u) (Fin (time_step s))) u)
     | Arr as \<Rightarrow> add_where (at_surface_of (num_elements_active s) (depth (elements s))) as
          (map (\<lambda>u. np_mul (np_mul (Fin (reference_thickness (model s) / 2)) u) (Fin (time_step s))) u))"
    and i: "interp age (tref (model s)) (fref (model s)) = Inr fe"
    and p: "p = map2 (\<lambda>surface p. if surface then p else Fin 0)
        (at_surface_of (num_elements_active s) (depth (elements s)))
        (map2 np_div (map2 np_sub fe (fraction_evaporated (elements s)))
           (map (np_sub (Fin 1)) (fraction_evaporated (elements s))))"
    by blast+
  show "u ! i = np_div (Fin (ws ! i)) (Fin (reference_wind (model s)))"
    unfolding ue using assms(2,4) by (simp del: np_div.simps)
  from i show t: "tref (model s) \<noteq> []" "length (fref (model s)) = length (tref (model s))"
    by (auto simp: interp_def split: if_splits)
  show "age ! i =
      (if element_of (depth (elements s)) i = 0 \<or> (\<exists>a. age_exposure_seconds (elements s) = Scalar a)
       then np_add (element_of (age_exposure_seconds (elements s)) i)
              (np_mul (np_mul (Fin (reference_thickness (model s) / 2)) (u ! i)) (Fin (time_step s)))
       else element_of (age_exposure_seconds (elements s)) i)"
  proof (cases "age_exposure_seconds (elements s)")
    case (Scalar a)
    then show ?thesis
      using age assms(4) len(1) by (simp add: element_of_def)
  next
    case (Arr as)
    with x have "length as = num_elements_active s" by simp
    with Arr show ?thesis
      using age a sf assms(4) len(1) by (simp add: element_of_def add_where_def)
  qed
  from i t have fe: "fe = map (\<lambda>v. np_interp v (tref (model s)) (fref (model s))) age"
    by (simp add: interp_def)
  show "fe ! i = np_interp (age ! i) (tref (model s)) (fref (model s))"
    unfolding fe using len(2) assms(4) by simp
  show "p ! i =
      (if element_of (depth (elements s)) i = 0
       then np_div (np_sub (fe ! i) (fraction_evaporated (elements s) ! i))
                   (np_sub (Fin 1) (fraction_evaporated (elements s) ! i))
       else Fin 0)"
    unfolding p using a f len(3) sf assms(4) by simp
qed

lemma update_with_evaporation:
  assumes "update rng s = Inr s'" and "evaporation (config s)"
  shows "\<exists>u age fe p.
     evaporation_locals (windspeed_of (environment s)) s = Inr (u, age, fe, p) \<and>
     age_exposure_seconds (elements s') = Arr age \<and>
     fraction_evaporated (elements s') = fe \<and>
     status (elements s') =
       map2 (\<lambda>b st. if b \<and> st = Active then Stranded else st)
         (map (\<lambda>l. l = 1) (land_binary_mask (environment s)))
         (map2 (\<lambda>b st. if b \<and> st = Active then Evaporated else st)
            (map2 np_gt p (map Fin (rand rng (num_elements_active s))))
            (status (elements s)))"
proof -
  let ?ws = "windspeed_of (environment s)"
  from assms(1) obtain s2 where w: "weather rng ?ws (advance_age s) = Inr s2"
    and s': "s' = transport rng (strand (if dispersion (config s) then disperse ?ws s2 else s2))"
    by (rule update_Inr)
  from w assms(2) obtain u s1 where e: "evaporate rng ?ws (advance_age s) = Inr (u, s1)"
    and k: "age_exposure_seconds (elements s2) = age_exposure_seconds (elements s1)"
      "fraction_evaporated (elements s2) = fraction_evaporated (elements s1)"
      "status (elements s2) = status (elements s1)"
    by (auto simp: weather_def advance_age_frame split: if_splits sum.splits dest!: emulsify_Inr)
  from evaporate_Inr[OF e] obtain age fe p where
    l: "evaporation_locals ?ws s = Inr (u, age, fe, p)"
    and s1: "s1 = deactivate_elements
        (map2 np_gt p (map Fin (rand rng (num_elements_active s)))) Evaporated
        ((advance_age s)\<lparr>elements := (elements (advance_age s))\<lparr>age_exposure_seconds := Arr age,
             fraction_evaporated := fe\<rparr>,
           trace := trace (advance_age s) @ [Write ''age_exposure_seconds'', Write ''fraction_evaporated'']\<rparr>)"
    by (auto simp: evaporation_locals_advance_age advance_age_frame)
  have e2: "environment s2 = environment s"
    using weather_frame(4)[OF w] by (simp add: advance_age_frame)
  have "age_exposure_seconds (elements s') = Arr age"
    and "fraction_evaporated (elements s') = fe"
    by (simp_all add: s' transport_frame strand_frame disperse_frame k s1 deactivate_elements_def)
  moreover have "status (elements s') =
       map2 (\<lambda>b st. if b \<and> st = Active then Stranded else st)
         (map (\<lambda>l. l = 1) (land_binary_mask (environment s)))
         (map2 (\<lambda>b st. if b \<and> st = Active then Evaporated else st)
            (map2 np_gt p (map Fin (rand rng (num_elements_active s))))
            (status (elements s)))"
    by (simp add: s' transport_frame strand_def disperse_frame k s1 deactivate_elements_def e2
        advance_age_frame)
  ultimately show ?thesis using l by blast
qed

lemma update_without_evaporation:
  assumes "update rng s = Inr s'" and "\<not> evaporation (config s)"
  shows "age_exposure_seconds (elements s') = age_exposure_seconds (elements s)"
    and "fraction_evaporated (elements s') = fraction_evaporated (elements s)"
    and "status (elements s') =
       map2 (\<lambda>b st. if b \<and> st = Active then Stranded else st)
         (map (\<lambda>l. l = 1) (land_binary_mask (environment s))) (status (elements s))"
proof -
  let ?ws = "windspeed_of (environment s)"
  from assms(1) obtain s2 where w: "weather rng ?ws (advance_age s) = Inr s2"
    and s': "s' = transport rng (strand (if dispersion (config s) then disperse ?ws s2 else s2))"
    by (rule update_Inr)
  from w assms(2) have k: "age_exposure_seconds (elements s2) = age_exposure_seconds (elements s)"
      "fraction_evaporated (elements s2) = fraction_evaporated (elements s)"
      "status (elements s2) = status (elements s)"
    by (auto simp: weather_def advance_age_frame split: if_splits sum.splits dest!: emulsify_Inr)
  have e2: "environment s2 = environment s"
    using weather_frame(4)[OF w] by (simp add: advance_age_frame)
  show "age_exposure_seconds (elements s') = age_exposure_seconds (elements s)"
    and "fraction_evaporated (elements s') = fraction_evaporated (elements s)"
    by (simp_all add: s' transport_frame strand_frame disperse_frame k)
  show "status (elements s') =
       map2 (\<lambda>b st. if b \<and> st = Active then Stranded else st)
         (map (\<lambda>l. l = 1) (land_binary_mask (environment s))) (status (elements s))"
    by (simp add: s' transport_frame strand_def disperse_frame k deactivate_elements_def e2)
qed

section \<open>Exposure of particles below the surface\<close>

text \<open>
  C4.  The specification says that a particle below the surface keeps its \<open>age_exposure_seconds\<close>.
  The masked assignment of line 146 does that, but it is only reached when
  \<open>age_exposure_seconds\<close> is an array.  While the variable is a scalar, line 144 adds the
  exposure of the step to every particle, whatever its depth.
\<close>

theorem exposure_scalar_ignores_depth:
  assumes "evaporation (config s)" and "aligned s" and "update rng s = Inr s'"
    and "i < num_elements_active s" and "age_exposure_seconds (elements s) = Scalar a"
  shows "element_of (age_exposure_seconds (elements s')) i =
     np_add a (np_mul (np_mul (Fin (reference_thickness (model s) / 2))
        (np_div (Fin (sqrt ((x_wind (environment s) ! i) ^ 2 + (y_wind (environment s) ! i) ^ 2)))
                (Fin (reference_wind (model s)))))
        (Fin (time_step s)))"
proof -
  let ?ws = "windspeed_of (environment s)"
  from update_with_evaporation[OF assms(3,1)] obtain u age fe p where
    l: "evaporation_locals ?ws s = Inr (u, age, fe, p)"
    and a: "age_exposure_seconds (elements s') = Arr age"
    by blast
  have n: "length ?ws = num_elements_active s" using assms(2) by (rule aligned_lengths)
  have w: "?ws ! i = sqrt ((x_wind (environment s) ! i) ^ 2 + (y_wind (environment s) ! i) ^ 2)"
    using assms(2,4) by (simp add: windspeed_nth aligned_lengths)
  show ?thesis
    using evaporation_locals_nth(1,2)[OF assms(2) n l assms(4)] assms(5) a w
    by (simp add: element_of_def del: np_div.simps np_mul.simps np_add.simps)
qed

theorem exposure_scalar_ignores_depth_witness:
  "evaporation (config sim_deep) \<and> aligned sim_deep \<and> 1 < num_elements_active sim_deep \<and>
   age_exposure_seconds (elements sim_deep) = Scalar (Fin 0) \<and>
   element_of (depth (elements sim_deep)) 1 = 5 \<and>
   (\<exists>s'. update rng0 sim_deep = Inr s' \<and>
      element_of (age_exposure_seconds (elements s')) 1 = Fin 3600)"
proof -
  have e: "evaporation (config sim_deep)" by (simp add: sim_deep_def sim0_def config0_def)
  have a: "aligned sim_deep"
    by (simp add: sim_deep_def aligned_def sim0_def num_elements_active_def)
  have n: "1 < num_elements_active sim_deep"
    by (simp add: sim_deep_def sim0_def num_elements_active_def)
  have x: "age_exposure_seconds (elements sim_deep) = Scalar (Fin 0)"
    by (simp add: sim_deep_def)
  have d: "element_of (depth (elements sim_deep)) 1 = 5"
    by (simp add: sim_deep_def element_of_def)
  obtain s' where u: "update rng0 sim_deep = Inr s'"
    using update_succeeds[of sim_deep rng0]
    by (auto simp: sim_deep_def sim0_def config0_def model0_def)
  from exposure_scalar_ignores_depth[OF e a u n x]
  have "element_of (age_exposure_seconds (elements s')) 1 = Fin 3600"
    by (simp add: sim_deep_def sim0_def model0_def)
  with e a n x d u show ?thesis by blast
qed

section \<open>Interpolation stays inside the table and follows its order\<close>

lemma segment_bounds:
  fixes x :: real
  assumes "x0 \<le> x" and "x < x1" and "lo \<le> y0" and "y0 \<le> hi" and "lo \<le> y1" and "y1 \<le> hi"
  shows "lo \<le> (y1 - y0) / (x1 - x0) * (x - x0) + y0"
    and "(y1 - y0) / (x1 - x0) * (x - x0) + y0 \<le> hi"
proof -
  define t where "t = (x - x0) / (x1 - x0)"
  have d: "0 < x1 - x0" using assms(1,2) by simp
  have t0: "0 \<le> t" using assms(1) d by (simp add: t_def)
  have t1: "t \<le> 1" using assms(2) d by (simp add: t_def)
  have "(y1 - y0) / (x1 - x0) * (x - x0) = (y1 - y0) * t"
    by (simp add: t_def)
  then have e: "(y1 - y0) / (x1 - x0) * (x - x0) + y0 = (1 - t) * y0 + t * y1"
    by (simp add: algebra_simps)
  have "(1 - t) * lo + t * lo \<le> (1 - t) * y0 + t * y1"
    using t0 t1 assms(3,5) by (intro add_mono mult_left_mono) simp_all
  then show "lo \<le> (y1 - y0) / (x1 - x0) * (x - x0) + y0"
    unfolding e by (simp add: algebra_simps)
  have "(1 - t) * y0 + t * y1 \<le> (1 - t) * hi + t * hi"
    using t0 t1 assms(4,6) by (intro add_mono mult_left_mono) simp_all
  then show "(y1 - y0) / (x1 - x0) * (x - x0) + y0 \<le> hi"
    unfolding e by (simp add: algebra_simps)
qed

lemma interp_from_bounds:
  assumes "length fp = length xp" and "xp \<noteq> []" and "hd xp \<le> x"
    and "list_all (\<lambda>y. lo \<le> y \<and> y \<le> hi) fp"
  shows "lo \<le> interp_from x xp fp \<and> interp_from x xp fp \<le> hi"
  using assms
proof (induction x xp fp rule: interp_from.induct)
  case (1 x x0 x1 xs y0 y1 ys)
  show ?case
  proof (cases "x < x1")
    case True
    with 1 show ?thesis
      using segment_bounds[of x0 x x1 lo y0 hi y1] by auto
  next
    case False
    with 1 show ?thesis by simp
  qed
qed simp_all

lemma interp_from_mono:
  assumes "length fp = length xp" and "xp \<noteq> []" and "sorted_wrt (<) xp" and "sorted fp"
    and "hd xp \<le> x" and "x \<le> x'"
  shows "interp_from x xp fp \<le> interp_from x' xp fp"
  using assms
proof (induction x xp fp rule: interp_from.induct)
  case (1 x x0 x1 xs y0 y1 ys)
  have y: "y0 \<le> y1" using "1.prems"(4) by simp
  have d: "x0 < x1" using "1.prems"(3) by simp
  show ?case
  proof (cases "x < x1")
    case False
    then have "x1 \<le> x'" using "1.prems"(6) by simp
    with False 1 show ?thesis by simp
  next
    case True
    have x0: "x0 \<le> x" using "1.prems"(5) by simp
    have up: "interp_from x (x0 # x1 # xs) (y0 # y1 # ys) \<le> y1"
      using True x0 y segment_bounds(2)[of x0 x x1 y0 y0 y1 y1] by auto
    show ?thesis
    proof (cases "x' < x1")
      case False
      have "list_all (\<lambda>y. y1 \<le> y \<and> y \<le> Max (set (y1 # ys))) (y1 # ys)"
        using "1.prems"(4) by (auto simp: list_all_iff)
      with interp_from_bounds[of "y1 # ys" "x1 # xs" x' y1 "Max (set (y1 # ys))"] False "1.prems"(1)
      have "y1 \<le> interp_from x' (x1 # xs) (y1 # ys)" by simp
      with up False show ?thesis by simp
    next
      case x': True
      have s: "0 \<le> (y1 - y0) / (x1 - x0)" using y d by simp
      have "(y1 - y0) / (x1 - x0) * (x - x0) \<le> (y1 - y0) / (x1 - x0) * (x' - x0)"
        using s "1.prems"(6) by (intro mult_left_mono) simp_all
      moreover have "0 \<le> (y1 - y0) / (x1 - x0) * (x' - x0)"
        using s x0 "1.prems"(6) by (intro mult_nonneg_nonneg) simp_all
      ultimately show ?thesis using True x' x0 "1.prems"(6) by auto
    qed
  qed
qed simp_all

lemma np_interp_curve:
  assumes "reference_curve xp fp"
  shows "\<exists>y. np_interp (Fin x) xp fp = Fin y \<and> 0 \<le> y \<and> y \<le> 1"
proof (cases "x < hd xp")
  case True
  from assms have "fp \<noteq> []" and "list_all (\<lambda>y. 0 \<le> y \<and> y \<le> 1) fp"
    by (auto simp: reference_curve_def)
  then have "0 \<le> hd fp \<and> hd fp \<le> 1" by (cases fp) simp_all
  with True show ?thesis by simp
next
  case False
  with assms interp_from_bounds[of fp xp x 0 1] show ?thesis
    by (simp add: reference_curve_def)
qed

lemma np_interp_mono:
  assumes "reference_curve xp fp" and "x \<le> x'"
    and "np_interp (Fin x) xp fp = Fin y" and "np_interp (Fin x') xp fp = Fin y'"
  shows "y \<le> y'"
proof -
  from assms(1) have c: "length fp = length xp" "xp \<noteq> []" "sorted_wrt (<) xp" "sorted fp"
    by (simp_all add: reference_curve_def)
  show ?thesis
  proof (cases "x < hd xp")
    case False
    with assms(2,3,4) interp_from_mono[OF c, of x x'] show ?thesis by simp
  next
    case True
    then have y: "y = hd fp" using assms(3) by simp
    show ?thesis
    proof (cases "x' < hd xp")
      case True
      with y assms(4) show ?thesis by simp
    next
      case False
      have "fp \<noteq> []" using c(1,2) by auto
      then have "list_all (\<lambda>v. hd fp \<le> v \<and> v \<le> Max (set fp)) fp"
        using c(4) by (cases fp) (auto simp: list_all_iff)
      with interp_from_bounds[of fp xp x' "hd fp" "Max (set fp)"] c False
      have "hd fp \<le> interp_from x' xp fp" by simp
      with y False assms(4) show ?thesis by simp
    qed
  qed
qed

section \<open>The evaporation probability of a fully evaporated particle\<close>

lemma np_div_zero: "np_div z (Fin 0) = NaN \<or> np_div z (Fin 0) = PInf \<or> np_div z (Fin 0) = NInf"
  by (cases z) auto

lemma np_interp_unit:
  assumes "reference_curve xp fp"
  shows "np_interp a xp fp = NaN \<or> (\<exists>y. np_interp a xp fp = Fin y \<and> 0 \<le> y \<and> y \<le> 1)"
proof (cases a)
  case (Fin x)
  with np_interp_curve[OF assms, of x] show ?thesis by simp
next
  case PInf
  from assms have "fp \<noteq> []" and "list_all (\<lambda>y. 0 \<le> y \<and> y \<le> 1) fp"
    by (auto simp: reference_curve_def)
  then have "0 \<le> last fp \<and> last fp \<le> 1" by (simp add: list_all_iff)
  with PInf show ?thesis by simp
next
  case NInf
  from assms have "fp \<noteq> []" and "list_all (\<lambda>y. 0 \<le> y \<and> y \<le> 1) fp"
    by (auto simp: reference_curve_def)
  then have "0 \<le> hd fp \<and> hd fp \<le> 1" by (simp add: list_all_iff)
  with NInf show ?thesis by simp
next
  case NaN
  then show ?thesis by simp
qed

lemma quotient_at_full:
  assumes "fe = NaN \<or> (\<exists>y. fe = Fin y \<and> y \<le> 1)"
  shows "\<not> np_gt (np_div (np_sub fe (Fin 1)) (Fin 0)) (Fin r)"
  using assms by (auto simp: np_sub_def split: if_splits)

lemma status_after_step:
  assumes "aligned s" and "draws_ok rng" and "update rng s = Inr s'" and "i < num_elements_active s"
    and "evaporation (config s)"
    and "evaporation_locals (windspeed_of (environment s)) s = Inr (u, age, fe, p)"
  shows "status (elements s') ! i =
     (let st = (if np_gt (p ! i) (Fin (rand rng (num_elements_active s) ! i)) \<and>
                   status (elements s) ! i = Active
                then Evaporated else status (elements s) ! i)
      in if land_binary_mask (environment s) ! i = 1 \<and> st = Active then Stranded else st)"
proof -
  from update_with_evaporation[OF assms(3,5)] assms(6)
  have st: "status (elements s') =
       map2 (\<lambda>b st. if b \<and> st = Active then Stranded else st)
         (map (\<lambda>l. l = 1) (land_binary_mask (environment s)))
         (map2 (\<lambda>b st. if b \<and> st = Active then Evaporated else st)
            (map2 np_gt p (map Fin (rand rng (num_elements_active s))))
            (status (elements s)))"
    by simp
  have n: "length (windspeed_of (environment s)) = num_elements_active s"
    using assms(1) by (rule aligned_lengths)
  have lp: "length p = num_elements_active s"
    using evaporation_locals_lengths(4)[OF assms(1) n assms(6)] .
  have lr: "length (rand rng (num_elements_active s)) = num_elements_active s"
    using assms(2) by (simp add: draws_ok_def)
  have ll: "length (land_binary_mask (environment s)) = num_elements_active s"
    using assms(1) by (rule aligned_lengths)
  show ?thesis
    unfolding st using lp lr ll assms(4)
    by (simp add: num_elements_active_def Let_def)
qed

text \<open>
  C1.  The specification says that a particle whose \<open>fraction_evaporated\<close> is 1 at the start of the
  step gets the probability 0 by a special case, with no division by zero.  The source has
  no such case: line 157 divides by \<open>1 - 1\<close>.  For a particle at the surface the
  probability is the quotient \<open>(new - 1) / 0\<close>, which is NaN or an infinity and never a
  number; a particle below the surface gets 0 from the overwrite of line 160.  On a
  reference curve whose fractions do not exceed 1 the quotient is NaN or \<open>-\<infinity>\<close>, the
  comparison with the uniform draw is false and the draw does not deactivate the particle.
\<close>

theorem probability_at_full_evaporation:
  assumes "evaporation (config s)" and "aligned s" and "update rng s = Inr s'"
    and "i < num_elements_active s" and "fraction_evaporated (elements s) ! i = Fin 1"
  shows "\<exists>u age fe p.
     evaporation_locals (windspeed_of (environment s)) s = Inr (u, age, fe, p) \<and>
     p ! i = (if element_of (depth (elements s)) i = 0
              then np_div (np_sub (fe ! i) (Fin 1)) (Fin 0) else Fin 0) \<and>
     (element_of (depth (elements s)) i = 0 \<longrightarrow> p ! i = NaN \<or> p ! i = PInf \<or> p ! i = NInf) \<and>
     (draws_ok rng \<and> reference_curve (tref (model s)) (fref (model s)) \<longrightarrow>
        \<not> np_gt (p ! i) (Fin (rand rng (num_elements_active s) ! i)) \<and>
        (status (elements s') ! i = Evaporated \<longrightarrow> status (elements s) ! i = Evaporated))"
proof -
  let ?ws = "windspeed_of (environment s)"
  let ?n = "num_elements_active s"
  from update_with_evaporation[OF assms(3,1)] obtain u age fe p where
    l: "evaporation_locals ?ws s = Inr (u, age, fe, p)" by blast
  have n: "length ?ws = ?n" using assms(2) by (rule aligned_lengths)
  note nth = evaporation_locals_nth[OF assms(2) n l assms(4)]
  have p: "p ! i = (if element_of (depth (elements s)) i = 0
              then np_div (np_sub (fe ! i) (Fin 1)) (Fin 0) else Fin 0)"
    using nth(4) assms(5) by (simp add: np_sub_def)
  have inf: "p ! i = NaN \<or> p ! i = PInf \<or> p ! i = NInf" if "element_of (depth (elements s)) i = 0"
    using p that np_div_zero[of "np_sub (fe ! i) (Fin 1)"] by simp
  have draw: "\<not> np_gt (p ! i) (Fin (rand rng ?n ! i)) \<and>
        (status (elements s') ! i = Evaporated \<longrightarrow> status (elements s) ! i = Evaporated)"
    if d: "draws_ok rng" and c: "reference_curve (tref (model s)) (fref (model s))"
  proof -
    have "fe ! i = NaN \<or> (\<exists>y. fe ! i = Fin y \<and> y \<le> 1)"
      using np_interp_unit[OF c, of "age ! i"] nth(3) by auto
    then have q: "\<not> np_gt (np_div (np_sub (fe ! i) (Fin 1)) (Fin 0)) (Fin (rand rng ?n ! i))"
      by (rule quotient_at_full)
    have "list_all (\<lambda>r. 0 \<le> r \<and> r < 1) (rand rng ?n)" and "length (rand rng ?n) = ?n"
      using d by (simp_all add: draws_ok_def)
    with assms(4) have "0 \<le> rand rng ?n ! i" by (simp add: list_all_length)
    with q p have g: "\<not> np_gt (p ! i) (Fin (rand rng ?n ! i))" by simp
    with status_after_step[OF assms(2) d assms(3,4,1) l] show ?thesis
      by (simp add: Let_def split: if_splits)
  qed
  from l p inf draw show ?thesis by blast
qed

theorem probability_at_full_evaporation_witness:
  "evaporation (config sim_full) \<and> aligned sim_full \<and> 0 < num_elements_active sim_full \<and>
   fraction_evaporated (elements sim_full) ! 0 = Fin 1 \<and>
   element_of (depth (elements sim_full)) 0 = 0 \<and> draws_ok rng0 \<and>
   reference_curve (tref (model sim_full)) (fref (model sim_full)) \<and>
   status (elements sim_full) ! 0 = Active \<and>
   (\<exists>s'. update rng0 sim_full = Inr s' \<and> status (elements s') ! 0 \<noteq> Evaporated \<and>
     (\<exists>u age fe p.
        evaporation_locals (windspeed_of (environment sim_full)) sim_full = Inr (u, age, fe, p) \<and>
        (p ! 0 = NaN \<or> p ! 0 = PInf \<or> p ! 0 = NInf) \<and>
        \<not> np_gt (p ! 0) (Fin (rand rng0 (num_elements_active sim_full) ! 0))))"
proof -
  have e: "evaporation (config sim_full)" by (simp add: sim_full_def sim0_def config0_def)
  have a: "aligned sim_full"
    by (simp add: sim_full_def aligned_def sim0_def elements0_def environment0_def
        num_elements_active_def)
  have n: "0 < num_elements_active sim_full"
    by (simp add: sim_full_def sim0_def elements0_def num_elements_active_def)
  have f: "fraction_evaporated (elements sim_full) ! 0 = Fin 1" by (simp add: sim_full_def)
  have d: "element_of (depth (elements sim_full)) 0 = 0"
    by (simp add: sim_full_def sim0_def elements0_def element_of_def)
  have c: "reference_curve (tref (model sim_full)) (fref (model sim_full))"
    by (simp add: sim_full_def sim0_def model0_def reference_curve_def)
  have st: "status (elements sim_full) ! 0 = Active"
    by (simp add: sim_full_def sim0_def elements0_def)
  obtain s' where u: "update rng0 sim_full = Inr s'"
    using update_succeeds[of sim_full rng0]
    by (auto simp: sim_full_def sim0_def config0_def model0_def)
  from probability_at_full_evaporation[OF e a u n f] d c draws_ok_rng0 st
  have "status (elements s') ! 0 \<noteq> Evaporated \<and>
     (\<exists>u age fe p.
        evaporation_locals (windspeed_of (environment sim_full)) sim_full = Inr (u, age, fe, p) \<and>
        (p ! 0 = NaN \<or> p ! 0 = PInf \<or> p ! 0 = NInf) \<and>
        \<not> np_gt (p ! 0) (Fin (rand rng0 (num_elements_active sim_full) ! 0)))"
    by auto
  with e a n f d c st u draws_ok_rng0 show ?thesis by blast
qed

theorem probability_at_full_evaporation_counterexample:
  "fraction_evaporated (elements sim_full) = [Fin 1] \<and> depth (elements sim_full) = Arr [0] \<and>
   status (elements sim_full) = [Active] \<and>
   evaporation_locals (windspeed_of (environment sim_full)) sim_full =
     Inr ([Fin 1], [Fin 7200], [Fin 1], [NaN])"
  by (simp add: sim_full_def sim0_def elements0_def environment0_def model0_def
      evaporation_locals_def windspeed_of_def at_surface_of_def add_where_def interp_def
      num_elements_active_def np_sub_def Let_def)

section \<open>Stranding\<close>

lemma status_after_step_plain:
  assumes "aligned s" and "update rng s = Inr s'" and "i < num_elements_active s"
    and "\<not> evaporation (config s)"
  shows "status (elements s') ! i =
     (if land_binary_mask (environment s) ! i = 1 \<and> status (elements s) ! i = Active
      then Stranded else status (elements s) ! i)"
proof -
  have ll: "length (land_binary_mask (environment s)) = num_elements_active s"
    using assms(1) by (rule aligned_lengths)
  show ?thesis
    unfolding update_without_evaporation(3)[OF assms(2,4)]
    using ll assms(3) by (simp add: num_elements_active_def)
qed

text \<open>
  C6.  The specification says that an active particle on land is stranded after the step, whatever
  the configuration.  Deactivation keeps the first reason: when evaporation is enabled and
  the particle's draw falls below its evaporation probability, the particle is already
  \<open>evaporated\<close> when the land test runs and stays so.  In every other case, and always
  when evaporation is disabled, it ends the step stranded.
\<close>

theorem stranded_unless_evaporated:
  assumes "aligned s" and "draws_ok rng" and "update rng s = Inr s'"
    and "i < num_elements_active s" and "status (elements s) ! i = Active"
    and "land_binary_mask (environment s) ! i = 1"
  shows "status (elements s') ! i =
     (if evaporation (config s) \<and>
         (\<exists>u age fe p. evaporation_locals (windspeed_of (environment s)) s = Inr (u, age, fe, p) \<and>
            np_gt (p ! i) (Fin (rand rng (num_elements_active s) ! i)))
      then Evaporated else Stranded)"
proof (cases "evaporation (config s)")
  case False
  with status_after_step_plain[OF assms(1,3,4)] assms(5,6) show ?thesis by simp
next
  case True
  from update_with_evaporation[OF assms(3) True] obtain u age fe p where
    l: "evaporation_locals (windspeed_of (environment s)) s = Inr (u, age, fe, p)" by blast
  from status_after_step[OF assms(1,2,3,4) True l] assms(5,6) True l
  show ?thesis by (auto simp: Let_def)
qed

theorem stranded_unless_evaporated_witness:
  "aligned (sim_land\<lparr>config := config0\<lparr>evaporation := False, emulsification := False\<rparr>\<rparr>) \<and>
   draws_ok rng0 \<and>
   status (elements (sim_land\<lparr>config := config0\<lparr>evaporation := False, emulsification := False\<rparr>\<rparr>)) ! 0
     = Active \<and>
   land_binary_mask (environment (sim_land\<lparr>config := config0\<lparr>evaporation := False,
     emulsification := False\<rparr>\<rparr>)) ! 0 = 1 \<and>
   (\<exists>s'. update rng0 (sim_land\<lparr>config := config0\<lparr>evaporation := False,
             emulsification := False\<rparr>\<rparr>) = Inr s' \<and>
      status (elements s') ! 0 = Stranded)"
proof -
  let ?s = "sim_land\<lparr>config := config0\<lparr>evaporation := False, emulsification := False\<rparr>\<rparr>"
  have a: "aligned ?s"
    by (simp add: sim_land_def aligned_def sim0_def elements0_def environment0_def
        num_elements_active_def)
  have n: "0 < num_elements_active ?s"
    by (simp add: sim_land_def sim0_def elements0_def num_elements_active_def)
  have st: "status (elements ?s) ! 0 = Active" by (simp add: sim_land_def sim0_def elements0_def)
  have l: "land_binary_mask (environment ?s) ! 0 = 1" by (simp add: sim_land_def)
  obtain s' where u: "update rng0 ?s = Inr s'"
    using update_succeeds[of ?s rng0] by (auto simp: sim_land_def sim0_def model0_def)
  from stranded_unless_evaporated[OF a draws_ok_rng0 u n st l]
  have "status (elements s') ! 0 = Stranded" by simp
  with a st l u draws_ok_rng0 show ?thesis by blast
qed

theorem stranded_unless_evaporated_counterexample:
  "aligned sim_land \<and> land_binary_mask (environment sim_land) = [1] \<and>
   status (elements sim_land) = [Active] \<and>
   (\<exists>s'. update rng0 sim_land = Inr s' \<and> status (elements s') = [Evaporated])"
proof -
  have a: "aligned sim_land"
    by (simp add: sim_land_def aligned_def sim0_def elements0_def environment0_def
        num_elements_active_def)
  have e: "evaporation (config sim_land)" by (simp add: sim_land_def sim0_def config0_def)
  have l: "evaporation_locals (windspeed_of (environment sim_land)) sim_land =
     Inr ([Fin 1], [Fin 3600], [Fin 1], [Fin 1])"
    by (simp add: sim_land_def sim0_def elements0_def environment0_def model0_def
      evaporation_locals_def windspeed_of_def at_surface_of_def add_where_def interp_def
      num_elements_active_def np_sub_def Let_def)
  obtain s' where u: "update rng0 sim_land = Inr s'"
    using update_succeeds[of sim_land rng0]
    by (auto simp: sim_land_def sim0_def config0_def model0_def)
  from update_with_evaporation[OF u e] l
  have "status (elements s') = [Evaporated]"
    by (simp add: sim_land_def sim0_def elements0_def rng0_def num_elements_active_def)
  with a u show ?thesis by (simp add: sim_land_def sim0_def elements0_def)
qed

section \<open>The evaporated fraction over time\<close>

lemma update_model:
  assumes "update rng s = Inr s'"
  shows "model s' = model s"
proof -
  from assms obtain s2 where w: "weather rng (windspeed_of (environment s)) (advance_age s) = Inr s2"
    and s': "s' = transport rng (strand (if dispersion (config s) then
               disperse (windspeed_of (environment s)) s2 else s2))"
    by (rule update_Inr)
  show ?thesis
    by (simp add: s' transport_frame strand_frame disperse_frame weather_frame[OF w]
        advance_age_frame)
qed

lemma below_curve_elim:
  assumes "below_curve m a f"
  obtains t y c where "a = Fin t" and "f = Fin y"
    and "np_interp (Fin t) (tref m) (fref m) = Fin c" and "0 \<le> y" and "y \<le> c"
  using assms by (cases a; cases f) (auto split: npfloat.splits)

lemma windspeed_nonneg:
  "i < length (x_wind env) \<Longrightarrow> i < length (y_wind env) \<Longrightarrow> 0 \<le> windspeed_of env ! i"
  by (simp add: windspeed_nth)

text \<open>
  C7.  The specification says that \<open>fraction_evaporated\<close> stays in \<open>[0, 1]\<close> and never decreases
  from one step to the next, given a well-formed reference curve.  The curve alone is not
  enough: the step replaces the fraction by the value of the curve at the new exposure age,
  so a stored fraction above the curve drops, and so does any fraction when the exposure of
  the step is negative.  For a particle on or below the curve, a positive
  \<open>reference_wind\<close>, a non-negative \<open>reference_thickness\<close> and a non-negative time step,
  every step that returns keeps the particle on or below the curve, its fraction in
  \<open>[0, 1]\<close>, and does not decrease it.
\<close>

theorem fraction_evaporated_monotone:
  assumes "reference_curve (tref (model s)) (fref (model s))"
    and "0 < reference_wind (model s)" and "0 \<le> reference_thickness (model s)"
    and "0 \<le> time_step s" and "aligned s" and "update rng s = Inr s'"
    and "i < num_elements_active s"
    and "below_curve (model s) (element_of (age_exposure_seconds (elements s)) i)
           (fraction_evaporated (elements s) ! i)"
  shows "\<exists>y y'. fraction_evaporated (elements s) ! i = Fin y \<and>
      fraction_evaporated (elements s') ! i = Fin y' \<and> y \<le> y' \<and> 0 \<le> y' \<and> y' \<le> 1 \<and>
      below_curve (model s') (element_of (age_exposure_seconds (elements s')) i)
        (fraction_evaporated (elements s') ! i)"
proof -
  let ?m = "model s"
  from assms(8) obtain t y c where a: "element_of (age_exposure_seconds (elements s)) i = Fin t"
    and f: "fraction_evaporated (elements s) ! i = Fin y"
    and c: "np_interp (Fin t) (tref ?m) (fref ?m) = Fin c" and y0: "0 \<le> y" and yc: "y \<le> c"
    by (rule below_curve_elim)
  from np_interp_curve[OF assms(1), of t] c have c1: "c \<le> 1" by simp
  have m: "model s' = ?m" using assms(6) by (rule update_model)
  show ?thesis
  proof (cases "evaporation (config s)")
    case False
    have "fraction_evaporated (elements s') = fraction_evaporated (elements s)"
      and "age_exposure_seconds (elements s') = age_exposure_seconds (elements s)"
      using update_without_evaporation[OF assms(6) False] by simp_all
    with a f c y0 yc c1 m show ?thesis by simp
  next
    case True
    let ?ws = "windspeed_of (environment s)"
    from update_with_evaporation[OF assms(6) True] obtain u age fe p where
      l: "evaporation_locals ?ws s = Inr (u, age, fe, p)"
      and a': "age_exposure_seconds (elements s') = Arr age"
      and f': "fraction_evaporated (elements s') = fe"
      by blast
    have n: "length ?ws = num_elements_active s" using assms(5) by (rule aligned_lengths)
    note nth = evaporation_locals_nth[OF assms(5) n l assms(7)]
    have w: "0 \<le> ?ws ! i"
      using assms(5,7) by (intro windspeed_nonneg) (simp_all add: aligned_lengths)
    have u: "u ! i = Fin (?ws ! i / reference_wind ?m)"
      using nth(1) assms(2) by simp
    define d where "d = reference_thickness ?m / 2 * (?ws ! i / reference_wind ?m) * time_step s"
    have d0: "0 \<le> d"
      unfolding d_def using w assms(2,3,4) by (intro mult_nonneg_nonneg divide_nonneg_pos) simp_all
    have "age ! i = Fin (t + d) \<or> age ! i = Fin t"
      using nth(2) a u by (auto simp: d_def)
    then obtain t' where t': "age ! i = Fin t'" and tt: "t \<le> t'"
      using d0 by auto
    from np_interp_curve[OF assms(1), of t'] obtain c' where
      c': "np_interp (Fin t') (tref ?m) (fref ?m) = Fin c'" and c'0: "0 \<le> c'" and c'1: "c' \<le> 1"
      by blast
    have cc: "c \<le> c'" using np_interp_mono[OF assms(1) tt c c'] .
    have fe: "fe ! i = Fin c'" using nth(3) t' c' by simp
    have "below_curve (model s') (element_of (age_exposure_seconds (elements s')) i)
        (fraction_evaporated (elements s') ! i)"
      using a' f' fe t' c' c'0 m by (simp add: element_of_def)
    with f f' fe yc cc c'0 c'1 show ?thesis by auto
  qed
qed

lemma aligned_sim_full: "aligned sim_full"
  by (simp add: sim_full_def aligned_def sim0_def elements0_def environment0_def
      num_elements_active_def)

theorem fraction_evaporated_monotone_witness:
  "reference_curve (tref (model sim0)) (fref (model sim0)) \<and>
   0 < reference_wind (model sim0) \<and> 0 \<le> reference_thickness (model sim0) \<and>
   0 \<le> time_step sim0 \<and> aligned sim0 \<and> 0 < num_elements_active sim0 \<and>
   below_curve (model sim0) (element_of (age_exposure_seconds (elements sim0)) 0)
     (fraction_evaporated (elements sim0) ! 0) \<and>
   fraction_evaporated (elements sim0) ! 0 = Fin 0 \<and>
   (\<exists>s' y'. update rng0 sim0 = Inr s' \<and> fraction_evaporated (elements s') ! 0 = Fin y' \<and>
      0 \<le> y' \<and> y' \<le> 1 \<and>
      below_curve (model s') (element_of (age_exposure_seconds (elements s')) 0)
        (fraction_evaporated (elements s') ! 0))"
proof -
  have c: "reference_curve (tref (model sim0)) (fref (model sim0))"
    by (simp add: sim0_def model0_def reference_curve_def)
  have rw: "0 < reference_wind (model sim0)" and rt: "0 \<le> reference_thickness (model sim0)"
    and dt: "0 \<le> time_step sim0"
    by (simp_all add: sim0_def model0_def)
  have n: "0 < num_elements_active sim0"
    by (simp add: sim0_def elements0_def num_elements_active_def)
  have b: "below_curve (model sim0) (element_of (age_exposure_seconds (elements sim0)) 0)
     (fraction_evaporated (elements sim0) ! 0)"
    by (simp add: sim0_def model0_def elements0_def element_of_def)
  have f: "fraction_evaporated (elements sim0) ! 0 = Fin 0"
    by (simp add: sim0_def elements0_def)
  obtain s' where u: "update rng0 sim0 = Inr s'"
    using update_succeeds[of sim0 rng0] by (auto simp: sim0_def config0_def model0_def)
  from fraction_evaporated_monotone[OF c rw rt dt aligned_sim0 u n b]
  have "\<exists>y'. fraction_evaporated (elements s') ! 0 = Fin y' \<and>
      0 \<le> y' \<and> y' \<le> 1 \<and>
      below_curve (model s') (element_of (age_exposure_seconds (elements s')) 0)
        (fraction_evaporated (elements s') ! 0)"
    by auto
  with c rw rt dt aligned_sim0 n b f u show ?thesis by blast
qed

theorem fraction_evaporated_monotone_counterexample:
  "reference_curve (tref (model sim_half)) (fref (model sim_half)) \<and>
   status (elements sim_half) = [Active] \<and>
   fraction_evaporated (elements sim_half) = [Fin (1 / 2)] \<and>
   (\<exists>s'. update rng0 sim_half = Inr s' \<and> status (elements s') = [Active] \<and>
      fraction_evaporated (elements s') = [Fin 0]) \<and>
   reference_curve (tref (model sim_back)) (fref (model sim_back)) \<and>
   status (elements sim_back) = [Active] \<and>
   fraction_evaporated (elements sim_back) = [Fin 1] \<and>
   (\<exists>s'. update rng0 sim_back = Inr s' \<and> status (elements s') = [Active] \<and>
      fraction_evaporated (elements s') = [Fin 0])"
proof -
  have c: "reference_curve (tref (model sim_half)) (fref (model sim_half))"
    "reference_curve (tref (model sim_back)) (fref (model sim_back))"
    by (simp_all add: sim_half_def sim_back_def sim_full_def sim0_def model0_def reference_curve_def)
  have st: "status (elements sim_half) = [Active]" "status (elements sim_back) = [Active]"
    "fraction_evaporated (elements sim_half) = [Fin (1 / 2)]"
    "fraction_evaporated (elements sim_back) = [Fin 1]"
    by (simp_all add: sim_half_def sim_back_def sim_full_def sim0_def elements0_def)
  have e: "evaporation (config sim_half)" "evaporation (config sim_back)"
    by (simp_all add: sim_half_def sim_back_def sim_full_def sim0_def config0_def)
  have l1: "evaporation_locals (windspeed_of (environment sim_half)) sim_half =
     Inr ([Fin 0], [Fin 0], [Fin 0], [Fin (- 1)])"
    by (simp add: sim_half_def sim0_def elements0_def environment0_def model0_def
      evaporation_locals_def windspeed_of_def at_surface_of_def add_where_def interp_def
      num_elements_active_def np_sub_def Let_def)
  have l2: "evaporation_locals (windspeed_of (environment sim_back)) sim_back =
     Inr ([Fin 1], [Fin 0], [Fin 0], [NInf])"
    by (simp add: sim_back_def sim_full_def sim0_def elements0_def environment0_def model0_def
      evaporation_locals_def windspeed_of_def at_surface_of_def add_where_def interp_def
      num_elements_active_def np_sub_def Let_def)
  obtain s1 where u1: "update rng0 sim_half = Inr s1"
    using update_succeeds[of sim_half rng0]
    by (auto simp: sim_half_def sim0_def config0_def model0_def)
  obtain s2 where u2: "update rng0 sim_back = Inr s2"
    using update_succeeds[of sim_back rng0]
    by (auto simp: sim_back_def sim_full_def sim0_def config0_def model0_def)
  from update_with_evaporation[OF u1 e(1)] l1
  have r1: "status (elements s1) = [Active] \<and> fraction_evaporated (elements s1) = [Fin 0]"
    by (simp add: sim_half_def sim0_def elements0_def environment0_def rng0_def
        num_elements_active_def)
  from update_with_evaporation[OF u2 e(2)] l2
  have r2: "status (elements s2) = [Active] \<and> fraction_evaporated (elements s2) = [Fin 0]"
    by (simp add: sim_back_def sim_full_def sim0_def elements0_def environment0_def rng0_def
        num_elements_active_def)
  from c st u1 u2 r1 r2 show ?thesis by blast
qed

section \<open>Emulsification after the evaporation block\<close>

text \<open>
  When the evaporation block has run, the emulsification block advances every particle's
  \<open>age_emulsion_seconds\<close> by \<open>Urel * \<Delta>t\<close>, with the \<open>Urel\<close> of that block, and sets
  \<open>water_content\<close> to the value of the \<open>wmax\<close> curve at the new age.
\<close>

lemma emulsification_after_evaporation:
  assumes "evaporation (config s)" and "emulsification (config s)" and "aligned s"
    and "update rng s = Inr s'" and "i < num_elements_active s"
  shows "age_emulsion_seconds (elements s') ! i =
       np_add (age_emulsion_seconds (elements s) ! i)
         (np_mul (np_div (Fin (windspeed_of (environment s) ! i)) (Fin (reference_wind (model s))))
            (Fin (time_step s)))"
    and "water_content (elements s') ! i =
       np_interp (age_emulsion_seconds (elements s') ! i) (tref (model s)) (wmax (model s))"
proof -
  let ?ws = "windspeed_of (environment s)"
  from assms(4) obtain s2 where w: "weather rng ?ws (advance_age s) = Inr s2"
    and s': "s' = transport rng (strand (if dispersion (config s) then disperse ?ws s2 else s2))"
    by (rule update_Inr)
  from w assms(1,2) obtain u s1 where e: "evaporate rng ?ws (advance_age s) = Inr (u, s1)"
    and m': "(if emulsification (config s1) then emulsify (Some u) s1 else Inr s1) = Inr s2"
    by (auto simp: weather_def advance_age_frame split: sum.splits)
  from evaporate_Inr[OF e] obtain age fe p where
    l: "evaporation_locals ?ws s = Inr (u, age, fe, p)"
    and s1: "s1 = deactivate_elements
        (map2 np_gt p (map Fin (rand rng (num_elements_active s)))) Evaporated
        ((advance_age s)\<lparr>elements := (elements (advance_age s))\<lparr>age_exposure_seconds := Arr age,
             fraction_evaporated := fe\<rparr>,
           trace := trace (advance_age s) @ [Write ''age_exposure_seconds'', Write ''fraction_evaporated'']\<rparr>)"
    by (auto simp: evaporation_locals_advance_age advance_age_frame)
  have k: "age_emulsion_seconds (elements s1) = age_emulsion_seconds (elements s)"
    "time_step s1 = time_step s" "model s1 = model s" "config s1 = config s"
    by (simp_all add: s1 deactivate_elements_def advance_age_frame)
  from m' k(4) assms(2) have m: "emulsify (Some u) s1 = Inr s2" by simp
  from emulsify_Inr[OF m] obtain wc where
    i: "interp (map2 (\<lambda>a x. np_add a (np_mul x (Fin (time_step s)))) (age_emulsion_seconds (elements s)) u)
          (tref (model s)) (wmax (model s)) = Inr wc"
    and a2: "age_emulsion_seconds (elements s2) =
       map2 (\<lambda>a x. np_add a (np_mul x (Fin (time_step s)))) (age_emulsion_seconds (elements s)) u"
    and w2: "water_content (elements s2) = wc"
    by (auto simp: k)
  have a': "age_emulsion_seconds (elements s') = age_emulsion_seconds (elements s2)"
    and w': "water_content (elements s') = water_content (elements s2)"
    by (simp_all add: s' transport_frame strand_frame disperse_frame)
  have n: "length ?ws = num_elements_active s" using assms(3) by (rule aligned_lengths)
  have lu: "length u = num_elements_active s"
    using evaporation_locals_lengths(1)[OF assms(3) n l] .
  have la: "length (age_emulsion_seconds (elements s)) = num_elements_active s"
    using assms(3) by (rule aligned_lengths)
  have u: "u ! i = np_div (Fin (?ws ! i)) (Fin (reference_wind (model s)))"
    using evaporation_locals_nth(1)[OF assms(3) n l assms(5)] .
  show age: "age_emulsion_seconds (elements s') ! i =
       np_add (age_emulsion_seconds (elements s) ! i)
         (np_mul (np_div (Fin (?ws ! i)) (Fin (reference_wind (model s)))) (Fin (time_step s)))"
    unfolding a' a2 using lu la assms(5) u by (simp del: np_div.simps np_mul.simps np_add.simps)
  from i have "wc = map (\<lambda>v. np_interp v (tref (model s)) (wmax (model s)))
      (map2 (\<lambda>a x. np_add a (np_mul x (Fin (time_step s)))) (age_emulsion_seconds (elements s)) u)"
    by (auto simp: interp_def split: if_splits)
  then show "water_content (elements s') ! i =
       np_interp (age_emulsion_seconds (elements s') ! i) (tref (model s)) (wmax (model s))"
    unfolding w' w2 a' a2 using lu la assms(5) by simp
qed

end
